theory Spec2Isabelle
  imports Main "HOL-Library.AList"
begin

section \<open>The RTSP stream session manager (class RTSPStreamer of server-main.js)\<close>

text \<open>
  The server is a single-threaded event loop: every handler of the class runs to its end
  before the next one starts. Each handler is therefore a function from the server state
  to the server state, and the environment (sockets, the clock, the random generator,
  the ffmpeg child processes, the disk) speaks through the arguments of the handlers.

  Strings are lists of 8-bit code units. The two maps of the class (\<open>activeStreams\<close>,
  \<open>wsConnections\<close>) are JavaScript \<open>Map\<close>s, which keep insertion order: they are
  association lists, \<open>Map.set\<close> is \<open>AList.update\<close> (in place for a known key, at
  the end for a new one), \<open>Map.delete\<close> is \<open>AList.delete\<close>, \<open>Map.get\<close> is
  \<open>map_of\<close> and \<open>Map.size\<close> is the length of the list.
  Calls of the logger are not part of the model: they change nothing the server reads.
\<close>

subsection \<open>Strings\<close>

text \<open>\<open>String.prototype.startsWith\<close>.\<close>

definition startsWith :: "string \<Rightarrow> string \<Rightarrow> bool" where
  "startsWith s p = (take (length p) s = p)"

text \<open>\<open>String.prototype.includes\<close>; also a regular expression that is a literal text.\<close>

fun includes_str :: "string \<Rightarrow> string \<Rightarrow> bool" where
  "includes_str [] p = (p = [])"
| "includes_str (c # cs) p = (startsWith (c # cs) p \<or> includes_str cs p)"

text \<open>White space as \<open>trim\<close> removes it, among the 8-bit code units.\<close>

definition isWhiteSpace :: "char \<Rightarrow> bool" where
  "isWhiteSpace c = (c \<in> set [CHR 0x09, CHR 0x0A, CHR 0x0B, CHR 0x0C, CHR 0x0D, CHR 0x20, CHR 0xA0])"

definition trim :: "string \<Rightarrow> string" where
  "trim s = rev (dropWhile isWhiteSpace (rev (dropWhile isWhiteSpace s)))"

text \<open>Lower case of the ASCII letters, for the regular expressions with the flag \<open>i\<close>.\<close>

definition toLowerAscii :: "char \<Rightarrow> char" where
  "toLowerAscii c =
     (if (65::nat) \<le> of_char c \<and> of_char c \<le> (90::nat) then char_of (of_char c + (32::nat)) else c)"

subsection \<open>Values that arrive in a JSON message\<close>

text \<open>
  A field of a parsed message is any JSON value, or \<open>undefined\<close> when the field is
  missing. The server only ever asks whether it is a string.
\<close>

datatype jsval = JStr string | JNotString

subsection \<open>validateRtspUrl\<close>

text \<open>
  The texts of the error replies, in the order of the source:
  \<^item> \<open>UrlEmpty\<close>: the URL must not be empty;
  \<^item> \<open>NotRtspPrefix\<close>: invalid RTSP URL, must start with rtsp://;
  \<^item> \<open>UrlTooLong\<close>: the URL is longer than the limit;
  \<^item> \<open>IllegalCharacters\<close>: the URL contains illegal characters;
  \<^item> \<open>ProtocolNotSupported\<close>: only RTSP and RTSPS are supported;
  \<^item> \<open>MissingHostname\<close>: the URL has no host name;
  \<^item> \<open>InvalidUrlFormat\<close>: invalid URL format;
  \<^item> \<open>StreamNotFound\<close>: the stream does not exist (stopRtspStream);
  \<^item> \<open>TranscodeStartFailed\<close>: starting the transcoding failed (startRtspStream);
  \<^item> \<open>FfmpegFailure\<close>: the ffmpeg error, with the text of the process;
  \<^item> \<open>UnknownMessageType\<close>, \<open>MessageHandlingFailed\<close>: the two replies of the
    message handler.
\<close>

datatype reason =
    UrlEmpty | NotRtspPrefix | UrlTooLong | IllegalCharacters | ProtocolNotSupported
  | MissingHostname | InvalidUrlFormat
  | StreamNotFound | TranscodeStartFailed | FfmpegFailure string
  | UnknownMessageType | MessageHandlingFailed

datatype validation = Valid | Invalid reason

text \<open>
  What \<open>new URL(url)\<close> gives: the constructor belongs to the platform, so it is a
  parameter of the model. \<open>None\<close> is the exception it throws on a text that is no URL.
\<close>

record parsedUrl =
  protocol :: string
  hostname :: string

type_synonym urlParser = "string \<Rightarrow> parsedUrl option"

text \<open>The five dangerous patterns, tested in the order of the array.\<close>

definition dangerousPatterns :: "(string \<Rightarrow> bool) list" where
  "dangerousPatterns =
    [\<lambda>u. \<exists>c \<in> set u. c \<in> set [CHR '';'', CHR ''&'', CHR ''|'', CHR 0x60, CHR ''$'', CHR ''('', CHR '')''],
     \<lambda>u. includes_str u ''..'',
     \<lambda>u. includes_str (map toLowerAscii u) ''file://'',
     \<lambda>u. includes_str u ''/etc/'',
     \<lambda>u. CHR 0x5C \<in> set u]"

definition validateRtspUrl :: "urlParser \<Rightarrow> jsval \<Rightarrow> validation" where
  "validateRtspUrl newURL v =
    (case v of
       JNotString \<Rightarrow> Invalid UrlEmpty
     | JStr raw \<Rightarrow>
        if raw = [] then Invalid UrlEmpty
        else let url = trim raw in
          if \<not> startsWith url ''rtsp://'' then Invalid NotRtspPrefix
          else if length url > 2048 then Invalid UrlTooLong
          else if list_ex (\<lambda>pattern. pattern url) dangerousPatterns then Invalid IllegalCharacters
          else (case newURL url of
                  None \<Rightarrow> Invalid InvalidUrlFormat
                | Some parsed \<Rightarrow>
                    if protocol parsed \<notin> set [''rtsp:'', ''rtsps:''] then Invalid ProtocolNotSupported
                    else if hostname parsed = [] then Invalid MissingHostname
                    else Valid))"

subsection \<open>Configuration, sockets, processes and the disk\<close>

text \<open>
  The values of \<open>config.js\<close> that the handlers read, the directory \<open>public\<close> beside
  the server file, which the static middleware serves, and two functions of the platform:
  the URL constructor and \<open>decodeURIComponent\<close> (\<open>None\<close> is the exception it throws).
  The directories are absolute paths, given by their components.
\<close>

type_synonym path = "string list"

record config =
  maxConnections :: nat
  heartbeatInterval :: int
  streamsDirectory :: path
  publicDirectory :: path
  newURL :: urlParser
  decodeURIComponent :: "string \<Rightarrow> string option"

datatype readyState = CONNECTING | OPEN | CLOSING | CLOSED

record websocket =
  socket :: nat
  readyState :: readyState

text \<open>\<open>clientInfo\<close>, without the two fields that only the logger reads (ip, userAgent).\<close>

record clientInfo =
  ws :: websocket
  connectTime :: int
  lastPing :: int

datatype signal = SIGTERM | SIGKILL

text \<open>
  The entry of \<open>activeStreams\<close>. The ffmpeg command object is named by the stream it was
  made for; \<open>timeoutId\<close> is the handle \<open>setTimeout\<close> returned, or null.
\<close>

record streamInfo =
  command :: "string option"
  connections :: "string list"
  rtspUrl :: jsval
  startTime :: int
  timeoutId :: "nat option"

text \<open>What the server writes to a socket (the timestamp of each message is left out).\<close>

datatype serverMessage =
    ErrorMessage reason
  | StreamStarted string
  | StreamEnded string
  | StreamStopped string
  | Ping

datatype wsAction = Send serverMessage | Close nat | Terminate

text \<open>
  The state: the two maps of the class, the pending timers of \<open>setTimeout\<close> (handle and
  the stream id its callback closes over) with the next free handle, the files on the disk
  (absolute paths) with those that \<open>unlinkSync\<close> cannot remove, everything done to the
  sockets so far, the ffmpeg processes created (with the connection id its event handlers
  close over) and the signals sent to them.
\<close>

record server =
  activeStreams :: "(string \<times> streamInfo) list"
  wsConnections :: "(string \<times> clientInfo) list"
  timers :: "(nat \<times> string) list"
  nextTimer :: nat
  disk :: "path list"
  locked :: "path list"
  wire :: "(nat \<times> wsAction) list"
  spawned :: "(string \<times> string) list"
  signals :: "(string \<times> signal) list"

definition initial :: server where
  "initial = \<lparr>activeStreams = [], wsConnections = [], timers = [], nextTimer = 0,
     disk = [], locked = [], wire = [], spawned = [], signals = []\<rparr>"

subsection \<open>path.join\<close>

text \<open>
  \<open>path.join(dir, name)\<close> puts a separator between its arguments and normalises the
  result: empty components and \<open>.\<close> are dropped, \<open>..\<close> removes the component before it
  (and nothing at the root). A separator at the end of the name stays at the end of the
  result: it is the empty last component of the path, which no file has. The separator is
  the one of POSIX.
\<close>

fun splitSlash :: "string \<Rightarrow> string list" where
  "splitSlash [] = [[]]"
| "splitSlash (c # cs) =
     (if c = CHR ''/'' then [] # splitSlash cs
      else (case splitSlash cs of [] \<Rightarrow> [[c]] | w # rest \<Rightarrow> (c # w) # rest))"

fun normalizeOnto :: "path \<Rightarrow> string list \<Rightarrow> path" where
  "normalizeOnto acc [] = rev acc"
| "normalizeOnto acc (c # cs) =
     (if c = [] \<or> c = ''.'' then normalizeOnto acc cs
      else if c = ''..'' then normalizeOnto (tl acc) cs
      else normalizeOnto (c # acc) cs)"

definition pathJoin :: "path \<Rightarrow> string \<Rightarrow> path" where
  "pathJoin dir name =
    (let p = normalizeOnto [] (dir @ splitSlash name)
     in if name \<noteq> [] \<and> last name = CHR ''/'' \<and> p \<noteq> [] then p @ [[]] else p)"

text \<open>
  A path that normalisation leaves alone, and a file that lies in a directory (at any depth).
\<close>

definition plainPath :: "path \<Rightarrow> bool" where
  "plainPath p = list_all (\<lambda>c. c \<noteq> [] \<and> c \<noteq> ''.'' \<and> c \<noteq> ''..'') p"

definition insideDirectory :: "path \<Rightarrow> path \<Rightarrow> bool" where
  "insideDirectory dir p = (length dir < length p \<and> take (length dir) p = dir)"

text \<open>\<open>fs.readdirSync\<close>: the names of the files that lie directly in the directory.\<close>

definition readdirSync :: "path \<Rightarrow> path list \<Rightarrow> string list" where
  "readdirSync dir files = map last (filter (\<lambda>p. p \<noteq> [] \<and> butlast p = dir) files)"

subsection \<open>sendError, sendMessage\<close>

definition sendMessage :: "string \<Rightarrow> serverMessage \<Rightarrow> server \<Rightarrow> server" where
  "sendMessage connectionId message s =
    (case map_of (wsConnections s) connectionId of
       None \<Rightarrow> s
     | Some clientInfo \<Rightarrow>
         if readyState (ws clientInfo) = OPEN
         then s\<lparr>wire := wire s @ [(socket (ws clientInfo), Send message)]\<rparr>
         else s)"

definition sendError :: "string \<Rightarrow> reason \<Rightarrow> server \<Rightarrow> server" where
  "sendError connectionId message s =
    (case map_of (wsConnections s) connectionId of
       None \<Rightarrow> s
     | Some clientInfo \<Rightarrow>
         if readyState (ws clientInfo) = OPEN
         then s\<lparr>wire := wire s @ [(socket (ws clientInfo), Send (ErrorMessage message))]\<rparr>
         else s)"

subsection \<open>cleanupStream\<close>

text \<open>
  The loop over the listing, inside the \<open>try\<close>: a file whose name starts with the stream
  id and a dot is unlinked; the first \<open>unlinkSync\<close> that throws ends the loop (the
  \<open>catch\<close> only logs). A listing that throws leaves the disk as it is, like an empty one.
\<close>

fun unlinkFiles :: "path \<Rightarrow> path list \<Rightarrow> string \<Rightarrow> string list \<Rightarrow> path list \<Rightarrow> path list" where
  "unlinkFiles dir lck streamId [] files = files"
| "unlinkFiles dir lck streamId (file # rest) files =
     (if startsWith file (streamId @ ''.'') then
        (if pathJoin dir file \<in> set lck then files
         else unlinkFiles dir lck streamId rest (removeAll (pathJoin dir file) files))
      else unlinkFiles dir lck streamId rest files)"

definition clearTimeout :: "nat \<Rightarrow> server \<Rightarrow> server" where
  "clearTimeout t s = s\<lparr>timers := AList.delete t (timers s)\<rparr>"

definition cleanupStream :: "config \<Rightarrow> string \<Rightarrow> server \<Rightarrow> server" where
  "cleanupStream cfg streamId s =
    (let s1 = (case map_of (activeStreams s) streamId of
                 None \<Rightarrow> s
               | Some streamInfo \<Rightarrow>
                   (case timeoutId streamInfo of
                      None \<Rightarrow> s
                    | Some t \<Rightarrow> clearTimeout t s));
         s2 = s1\<lparr>activeStreams := AList.delete streamId (activeStreams s1)\<rparr>
     in s2\<lparr>disk := unlinkFiles (streamsDirectory cfg) (locked s2) streamId
                      (readdirSync (streamsDirectory cfg) (disk s2)) (disk s2)\<rparr>)"

subsection \<open>startRtspStream, stopRtspStream\<close>

text \<open>
  \<open>streamId\<close> is what \<open>generateStreamId\<close> returns (clock and random generator),
  \<open>spawnOk\<close> is false when building and starting the ffmpeg command throws, \<open>now\<close> is
  the clock. The storage directory, which the function creates when it is missing, is not
  an entry of the disk of the model, which holds files only.
\<close>

definition startRtspStream ::
  "config \<Rightarrow> string \<Rightarrow> bool \<Rightarrow> int \<Rightarrow> jsval \<Rightarrow> string \<Rightarrow> server \<Rightarrow> server" where
  "startRtspStream cfg streamId spawnOk now url connectionId s =
    (case validateRtspUrl (newURL cfg) url of
       Invalid e \<Rightarrow> sendError connectionId e s
     | Valid \<Rightarrow>
         let s1 = sendMessage connectionId (StreamStarted streamId) s in
         if spawnOk then
           s1\<lparr>spawned := spawned s1 @ [(streamId, connectionId)],
              activeStreams := AList.update streamId
                \<lparr>command = Some streamId, connections = [connectionId], rtspUrl = url,
                 startTime = now, timeoutId = None\<rparr> (activeStreams s1)\<rparr>
         else sendError connectionId TranscodeStartFailed s1)"

text \<open>
  \<open>Map.get\<close> with a key that comes from a message: the keys of the map are strings, so
  a key that is no string finds nothing. The entry comes back with its key.
\<close>

definition mapGet :: "(string \<times> 'v) list \<Rightarrow> jsval \<Rightarrow> (string \<times> 'v) option" where
  "mapGet m key =
    (case key of
       JNotString \<Rightarrow> None
     | JStr k \<Rightarrow> (case map_of m k of None \<Rightarrow> None | Some v \<Rightarrow> Some (k, v)))"

definition kill :: "string \<Rightarrow> signal \<Rightarrow> server \<Rightarrow> server" where
  "kill cmd sig s = s\<lparr>signals := signals s @ [(cmd, sig)]\<rparr>"

text \<open>
  \<open>setTimeout\<close> with the forced-kill callback of the stream: a new pending timer.
  In stopRtspStream the signal and the timer are inside a \<open>try\<close> whose \<open>catch\<close> only
  logs, and cleanupStream is called after it in either case; \<open>kill\<close> of a command
  object does not throw.
\<close>

definition setTimeout :: "string \<Rightarrow> server \<Rightarrow> nat \<times> server" where
  "setTimeout streamId s =
     (nextTimer s, s\<lparr>timers := timers s @ [(nextTimer s, streamId)], nextTimer := Suc (nextTimer s)\<rparr>)"

definition stopRtspStream :: "config \<Rightarrow> jsval \<Rightarrow> string \<Rightarrow> server \<Rightarrow> server" where
  "stopRtspStream cfg streamKey connectionId s =
    (case mapGet (activeStreams s) streamKey of
       None \<Rightarrow> sendError connectionId StreamNotFound s
     | Some (streamId, streamInfo0) \<Rightarrow>
         let streamInfo = streamInfo0\<lparr>connections := filter (\<lambda>i. i \<noteq> connectionId) (connections streamInfo0)\<rparr>;
             s1 = s\<lparr>activeStreams := AList.update streamId streamInfo (activeStreams s)\<rparr>;
             s2 = (if connections streamInfo = [] then
                     cleanupStream cfg streamId
                       (case command streamInfo of
                          None \<Rightarrow> s1
                        | Some cmd \<Rightarrow>
                            let (t, s') = setTimeout streamId (kill cmd SIGTERM s1)
                            in s'\<lparr>activeStreams := AList.update streamId
                                   (streamInfo\<lparr>timeoutId := Some t\<rparr>) (activeStreams s')\<rparr>)
                   else s1)
         in sendMessage connectionId (StreamStopped streamId) s2)"

text \<open>The callback of the timer, run when the five seconds are over and it was not cleared.\<close>

definition forcedKill :: "config \<Rightarrow> string \<Rightarrow> server \<Rightarrow> server" where
  "forcedKill cfg streamId s =
    (case map_of (activeStreams s) streamId of
       None \<Rightarrow> s
     | Some info \<Rightarrow>
         cleanupStream cfg streamId
           (case command info of None \<Rightarrow> s | Some cmd \<Rightarrow> kill cmd SIGKILL s))"

definition timerFires :: "config \<Rightarrow> nat \<Rightarrow> server \<Rightarrow> server" where
  "timerFires cfg t s =
    (case map_of (timers s) t of
       None \<Rightarrow> s
     | Some streamId \<Rightarrow> forcedKill cfg streamId (clearTimeout t s))"

subsection \<open>The socket handlers\<close>

text \<open>
  The handler of \<open>connection\<close>: \<open>sock\<close> is the new socket, \<open>connectionId\<close> what
  \<open>generateConnectionId\<close> returns.
\<close>

definition onConnection :: "config \<Rightarrow> nat \<Rightarrow> string \<Rightarrow> int \<Rightarrow> server \<Rightarrow> server" where
  "onConnection cfg sock connectionId now s =
    (if length (wsConnections s) \<ge> maxConnections cfg
     then s\<lparr>wire := wire s @ [(sock, Close 1008)]\<rparr>
     else s\<lparr>wsConnections := AList.update connectionId
              \<lparr>ws = \<lparr>socket = sock, readyState = OPEN\<rparr>, connectTime = now, lastPing = now\<rparr>
              (wsConnections s)\<rparr>)"

text \<open>
  \<open>activeStreams.forEach\<close> of handleWebSocketClose: the keys in insertion order; an
  entry deleted before its turn is not visited, and each entry is read when it is visited.
\<close>

definition stopIfViewer :: "config \<Rightarrow> string \<Rightarrow> string \<Rightarrow> server \<Rightarrow> server" where
  "stopIfViewer cfg connectionId streamId s =
    (case map_of (activeStreams s) streamId of
       None \<Rightarrow> s
     | Some streamInfo \<Rightarrow>
         if connectionId \<in> set (connections streamInfo)
         then stopRtspStream cfg (JStr streamId) connectionId s
         else s)"

fun stopStreamsOf :: "config \<Rightarrow> string \<Rightarrow> string list \<Rightarrow> server \<Rightarrow> server" where
  "stopStreamsOf cfg connectionId [] s = s"
| "stopStreamsOf cfg connectionId (streamId # rest) s =
     stopStreamsOf cfg connectionId rest (stopIfViewer cfg connectionId streamId s)"

definition handleWebSocketClose :: "config \<Rightarrow> string \<Rightarrow> server \<Rightarrow> server" where
  "handleWebSocketClose cfg connectionId s =
    (let s1 = s\<lparr>wsConnections := AList.delete connectionId (wsConnections s)\<rparr>
     in stopStreamsOf cfg connectionId (map fst (activeStreams s1)) s1)"

text \<open>The handler of \<open>error\<close> of a socket.\<close>

definition onSocketError :: "string \<Rightarrow> server \<Rightarrow> server" where
  "onSocketError connectionId s = s\<lparr>wsConnections := AList.delete connectionId (wsConnections s)\<rparr>"

text \<open>
  \<open>wsConnections.forEach\<close> of checkConnections, with its callback: \<open>now\<close> is read
  once, before the loop.
\<close>

definition visitConnection :: "config \<Rightarrow> int \<Rightarrow> string \<Rightarrow> server \<Rightarrow> server" where
  "visitConnection cfg now connectionId s =
    (case map_of (wsConnections s) connectionId of
       None \<Rightarrow> s
     | Some clientInfo \<Rightarrow>
         if now - lastPing clientInfo > heartbeatInterval cfg * 2
         then s\<lparr>wire := wire s @ [(socket (ws clientInfo), Terminate)],
                wsConnections := AList.delete connectionId (wsConnections s)\<rparr>
         else sendMessage connectionId Ping s)"

fun sweepConnections :: "config \<Rightarrow> int \<Rightarrow> string list \<Rightarrow> server \<Rightarrow> server" where
  "sweepConnections cfg now [] s = s"
| "sweepConnections cfg now (connectionId # rest) s =
     sweepConnections cfg now rest (visitConnection cfg now connectionId s)"

definition checkConnections :: "config \<Rightarrow> int \<Rightarrow> server \<Rightarrow> server" where
  "checkConnections cfg now s = sweepConnections cfg now (map fst (wsConnections s)) s"

text \<open>
  What arrives on a socket: a text that \<open>JSON.parse\<close> rejects; the JSON value
  \<open>null\<close>, on which reading \<open>data.type\<close> throws; or a value whose \<open>type\<close> is one of
  the three known kinds or anything else (also undefined).
\<close>

datatype payload =
    Unparsable | JsonNull
  | StartStream jsval | StopStream jsval | Pong | OtherType

text \<open>handleWebSocketMessage; \<open>None\<close> is the exception that leaves it.\<close>

definition handleWebSocketMessage ::
  "config \<Rightarrow> string \<Rightarrow> bool \<Rightarrow> int \<Rightarrow> string \<Rightarrow> payload \<Rightarrow> server \<Rightarrow> server option" where
  "handleWebSocketMessage cfg streamId spawnOk now connectionId message s =
    (if message = Unparsable \<or> message = JsonNull then None
     else
       let s1 = (case map_of (wsConnections s) connectionId of
                   None \<Rightarrow> s
                 | Some clientInfo \<Rightarrow>
                     s\<lparr>wsConnections := AList.update connectionId
                          (clientInfo\<lparr>lastPing := now\<rparr>) (wsConnections s)\<rparr>)
       in Some (case message of
                  StartStream url \<Rightarrow> startRtspStream cfg streamId spawnOk now url connectionId s1
                | StopStream k \<Rightarrow> stopRtspStream cfg k connectionId s1
                | Pong \<Rightarrow> s1
                | _ \<Rightarrow> sendError connectionId UnknownMessageType s1))"

text \<open>The handler of \<open>message\<close> of a socket, with its \<open>try\<close> and \<open>catch\<close>.\<close>

definition onMessage ::
  "config \<Rightarrow> string \<Rightarrow> bool \<Rightarrow> int \<Rightarrow> string \<Rightarrow> payload \<Rightarrow> server \<Rightarrow> server" where
  "onMessage cfg streamId spawnOk now connectionId message s =
    (case handleWebSocketMessage cfg streamId spawnOk now connectionId message s of
       None \<Rightarrow> sendError connectionId MessageHandlingFailed s
     | Some s' \<Rightarrow> s')"

subsection \<open>The handlers of an ffmpeg command\<close>

text \<open>
  The handlers close over the stream id and the connection id of the start request.
  The handler of \<open>start\<close> and the handler of \<open>progress\<close> only log.
\<close>

definition onFfmpegStart :: "string \<Rightarrow> string \<Rightarrow> server \<Rightarrow> server" where
  "onFfmpegStart streamId connectionId s = s"

definition onFfmpegError :: "config \<Rightarrow> string \<Rightarrow> string \<Rightarrow> string \<Rightarrow> server \<Rightarrow> server" where
  "onFfmpegError cfg streamId connectionId err s =
     cleanupStream cfg streamId (sendError connectionId (FfmpegFailure err) s)"

definition onFfmpegEnd :: "config \<Rightarrow> string \<Rightarrow> string \<Rightarrow> server \<Rightarrow> server" where
  "onFfmpegEnd cfg streamId connectionId s =
     cleanupStream cfg streamId (sendMessage connectionId (StreamEnded streamId) s)"

subsection \<open>serveHLSPlaylist, serveHLSSegment\<close>

text \<open>
  A handler of a GET request returns the response and the calls it made to the file
  system, in order. The parameters of the route are strings. The responses: 404 with its
  text (the last one is the text of the catch-all handler of setupErrorHandling), a file
  sent by \<open>res.sendFile\<close> with its content type, a file sent by the static middleware,
  and the 500 of the global error handler. The disk of the model holds files only:
  \<open>fs.existsSync\<close> of a directory is not modelled.
\<close>

datatype notFound = NoSuchStream | NoSuchPlaylistFile | NoSuchSegmentFile | NoSuchEndpoint

datatype response = Status404 notFound | SendFile string path | StaticFile path | Status500

datatype fsCall = ExistsSync path | Stat path | ReadFile path

definition serveHLSPlaylist :: "config \<Rightarrow> string \<Rightarrow> server \<Rightarrow> response \<times> fsCall list" where
  "serveHLSPlaylist cfg streamId s =
    (case map_of (activeStreams s) streamId of
       None \<Rightarrow> (Status404 NoSuchStream, [])
     | Some streamInfo \<Rightarrow>
         let filePath = pathJoin (streamsDirectory cfg) (streamId @ ''.m3u8'') in
         if filePath \<in> set (disk s)
         then (SendFile ''application/vnd.apple.mpegurl'' filePath,
               [ExistsSync filePath, ExistsSync filePath, ReadFile filePath])
         else (Status404 NoSuchPlaylistFile, [ExistsSync filePath, ExistsSync filePath]))"

definition serveHLSSegment :: "config \<Rightarrow> string \<Rightarrow> string \<Rightarrow> server \<Rightarrow> response \<times> fsCall list" where
  "serveHLSSegment cfg streamId segment s =
    (case map_of (activeStreams s) streamId of
       None \<Rightarrow> (Status404 NoSuchStream, [])
     | Some streamInfo \<Rightarrow>
         let filePath = pathJoin (streamsDirectory cfg) (streamId @ ''-'' @ segment) in
         if filePath \<in> set (disk s)
         then (SendFile ''video/MP2T'' filePath, [ExistsSync filePath, ReadFile filePath])
         else (Status404 NoSuchSegmentFile, [ExistsSync filePath]))"

subsection \<open>The routes under /streams (setupRoutes)\<close>

text \<open>
  A GET request for \<open>/streams/raw\<close>, where \<open>raw\<close> is the rest of the path as it is on
  the wire. setupRoutes registers, in this order, the playlist route
  \<open>/streams/:streamId.m3u8\<close>, the segment route \<open>/streams/:streamId-:segment\<close> and,
  after the API routes, \<open>express.static\<close> on the directory \<open>public\<close>; what none of them
  answers reaches the catch-all 404 of setupErrorHandling.

  Express 4 compiles a route to a regular expression that ignores case and allows one
  separator at the end; a parameter is a shortest non-empty run without a separator. So
  the playlist route takes every name that ends in \<open>.m3u8\<close> after at least one character,
  and the segment route every name with a hyphen that has at least one character before it
  and one after it; the stream id ends at the first such hyphen. The parameters are decoded
  with \<open>decodeURIComponent\<close>, and an exception there ends in the global error handler.
\<close>

definition stripTrailingSlash :: "string \<Rightarrow> string" where
  "stripTrailingSlash raw = (if raw \<noteq> [] \<and> last raw = CHR ''/'' then butlast raw else raw)"

definition matchPlaylist :: "string \<Rightarrow> string option" where
  "matchPlaylist r =
    (if length r > 5 \<and> map toLowerAscii (drop (length r - 5) r) = ''.m3u8''
     then Some (take (length r - 5) r) else None)"

fun splitDash :: "string \<Rightarrow> string \<Rightarrow> (string \<times> string) option" where
  "splitDash acc [] = None"
| "splitDash acc (c # cs) =
     (if c = CHR ''-'' \<and> acc \<noteq> [] \<and> cs \<noteq> [] then Some (rev acc, cs)
      else splitDash (c # acc) cs)"

definition matchSegment :: "string \<Rightarrow> (string \<times> string) option" where
  "matchSegment r = splitDash [] r"

text \<open>
  \<open>express.static\<close> with its defaults: the path is decoded; a path with a NUL, a path
  that climbs above the root, and a path with a component that starts with a dot are
  refused; a path that ends with a separator asks for \<open>index.html\<close> in it; the file, when
  it is there, is sent. Everything else falls through to the catch-all 404.
\<close>

fun normalizeBelow :: "path \<Rightarrow> string list \<Rightarrow> path option" where
  "normalizeBelow acc [] = Some (rev acc)"
| "normalizeBelow acc (c # cs) =
     (if c = [] \<or> c = ''.'' then normalizeBelow acc cs
      else if c = ''..'' then (if acc = [] then None else normalizeBelow (tl acc) cs)
      else normalizeBelow (c # acc) cs)"

definition isDotFile :: "string \<Rightarrow> bool" where
  "isDotFile c = (length c > 1 \<and> take 1 c = ''.'')"

definition expressStatic :: "config \<Rightarrow> string \<Rightarrow> server \<Rightarrow> response \<times> fsCall list" where
  "expressStatic cfg raw s =
    (case decodeURIComponent cfg raw of
       None \<Rightarrow> (Status404 NoSuchEndpoint, [])
     | Some name \<Rightarrow>
         if CHR 0x00 \<in> set name then (Status404 NoSuchEndpoint, [])
         else
           (case normalizeBelow [] (''streams'' # splitSlash name) of
              None \<Rightarrow> (Status404 NoSuchEndpoint, [])
            | Some parts \<Rightarrow>
                if list_ex isDotFile parts then (Status404 NoSuchEndpoint, [])
                else
                  let filePath = publicDirectory cfg @ parts @
                        (if name = [] \<or> last name = CHR ''/'' then [''index.html''] else [])
                  in if filePath \<in> set (disk s)
                     then (StaticFile filePath, [Stat filePath, ReadFile filePath])
                     else (Status404 NoSuchEndpoint, [Stat filePath])))"

definition getStreams :: "config \<Rightarrow> string \<Rightarrow> server \<Rightarrow> response \<times> fsCall list" where
  "getStreams cfg raw s =
    (let r = stripTrailingSlash raw in
     if CHR ''/'' \<in> set r then expressStatic cfg raw s
     else
       (case matchPlaylist r of
          Some p \<Rightarrow>
            (case decodeURIComponent cfg p of
               None \<Rightarrow> (Status500, [])
             | Some streamId \<Rightarrow> serveHLSPlaylist cfg streamId s)
        | None \<Rightarrow>
            (case matchSegment r of
               Some (p, q) \<Rightarrow>
                 (case decodeURIComponent cfg p of
                    None \<Rightarrow> (Status500, [])
                  | Some streamId \<Rightarrow>
                      (case decodeURIComponent cfg q of
                         None \<Rightarrow> (Status500, [])
                       | Some segment \<Rightarrow> serveHLSSegment cfg streamId segment s))
             | None \<Rightarrow> expressStatic cfg raw s)))"

subsection \<open>The event loop\<close>

text \<open>
  Everything that can happen to the running server. A socket changes its ready state
  by itself (the peer closes); ffmpeg and the periodic sweep of old files
  (cleanupExpiredFiles, which reads and changes nothing but the disk) change the disk.
  An event of an ffmpeg command only comes from a command that was created. The two GET
  handlers above and the two API routes read the state and do not change it; the shutdown
  of the server ends the run.
\<close>

datatype event =
    Connection nat string int
  | Message string payload string bool int
  | SocketClose string
  | SocketError string
  | SocketState string readyState
  | Heartbeat int
  | TimerFires nat
  | FfmpegStart string string
  | FfmpegError string string string
  | FfmpegEnd string string
  | DiskChange "path list" "path list"

definition setReadyState :: "string \<Rightarrow> readyState \<Rightarrow> server \<Rightarrow> server" where
  "setReadyState connectionId r s =
    (case map_of (wsConnections s) connectionId of
       None \<Rightarrow> s
     | Some clientInfo \<Rightarrow>
         s\<lparr>wsConnections := AList.update connectionId
              (clientInfo\<lparr>ws := (ws clientInfo)\<lparr>readyState := r\<rparr>\<rparr>) (wsConnections s)\<rparr>)"

fun step :: "config \<Rightarrow> server \<Rightarrow> event \<Rightarrow> server" where
  "step cfg s (Connection sock connectionId now) = onConnection cfg sock connectionId now s"
| "step cfg s (Message connectionId message streamId spawnOk now) =
     onMessage cfg streamId spawnOk now connectionId message s"
| "step cfg s (SocketClose connectionId) = handleWebSocketClose cfg connectionId s"
| "step cfg s (SocketError connectionId) = onSocketError connectionId s"
| "step cfg s (SocketState connectionId r) = setReadyState connectionId r s"
| "step cfg s (Heartbeat now) = checkConnections cfg now s"
| "step cfg s (TimerFires t) = timerFires cfg t s"
| "step cfg s (FfmpegStart streamId connectionId) =
     (if (streamId, connectionId) \<in> set (spawned s) then onFfmpegStart streamId connectionId s else s)"
| "step cfg s (FfmpegError streamId connectionId err) =
     (if (streamId, connectionId) \<in> set (spawned s) then onFfmpegError cfg streamId connectionId err s else s)"
| "step cfg s (FfmpegEnd streamId connectionId) =
     (if (streamId, connectionId) \<in> set (spawned s) then onFfmpegEnd cfg streamId connectionId s else s)"
| "step cfg s (DiskChange files lck) = s\<lparr>disk := files, locked := lck\<rparr>"

definition run :: "config \<Rightarrow> event list \<Rightarrow> server" where
  "run cfg events = foldl (step cfg) initial events"

subsection \<open>A configuration and two runs, for the concrete checks\<close>

text \<open>
  The directories are those of the default configuration: the storage directory is
  \<open>public/streams\<close>. No name in the examples has a percent sign, so that decoding
  leaves it as it is.
\<close>

definition exampleConfig :: config where
  "exampleConfig =
     \<lparr>maxConnections = 2, heartbeatInterval = 30000,
      streamsDirectory = [''srv'', ''app'', ''public'', ''streams''],
      publicDirectory = [''srv'', ''app'', ''public''],
      newURL = (\<lambda>u. Some \<lparr>protocol = ''rtsp:'', hostname = ''cam.local''\<rparr>),
      decodeURIComponent = Some\<rparr>"

text \<open>
  One viewer has connected and started a stream; ffmpeg has written three files into the
  storage directory, and the configuration file of the server lies two levels above it.
\<close>

definition exampleEvents :: "event list" where
  "exampleEvents =
     [Connection 7 ''c1'' 100,
      Message ''c1'' (StartStream (JStr ''rtsp://cam.local/live'')) ''s1'' True 200,
      DiskChange [[''srv'', ''app'', ''public'', ''streams'', ''s1.m3u8''],
                  [''srv'', ''app'', ''public'', ''streams'', ''s1-0.ts''],
                  [''srv'', ''app'', ''public'', ''streams'', ''s10.ts''],
                  [''srv'', ''app'', ''user.config.json'']] []]"

text \<open>Two viewers have connected: the table is at the ceiling of the example.\<close>

definition twoConnections :: "event list" where
  "twoConnections = [Connection 7 ''c1'' 100, Connection 8 ''c2'' 150]"

definition exampleServer :: server where
  "exampleServer = run exampleConfig exampleEvents"

text \<open>The only viewer of the stream \<open>s1\<close> of the example asks to stop it.\<close>

definition stopRequest :: event where
  "stopRequest = Message ''c1'' (StopStream (JStr ''s1'')) ''s2'' True 300"

text \<open>
  No timer is pending and every signal sent so far is SIGTERM.
\<close>

definition graceOnly :: "server \<Rightarrow> bool" where
  "graceOnly s = (timers s = [] \<and> list_all (\<lambda>x. snd x = SIGTERM) (signals s))"

text \<open>
  The test of the sweep, and what a handler has written to the sockets between two states.
\<close>

definition expired :: "config \<Rightarrow> int \<Rightarrow> clientInfo \<Rightarrow> bool" where
  "expired cfg now clientInfo = (now - lastPing clientInfo > heartbeatInterval cfg * 2)"

definition written :: "server \<Rightarrow> server \<Rightarrow> (nat \<times> wsAction) list" where
  "written s s' = drop (length (wire s)) (wire s')"

section \<open>Properties\<close>

subsection \<open>What the helpers leave alone\<close>

lemma sendError_fields [simp]:
  "activeStreams (sendError c r s) = activeStreams s"
  "wsConnections (sendError c r s) = wsConnections s"
  "timers (sendError c r s) = timers s"
  "nextTimer (sendError c r s) = nextTimer s"
  "disk (sendError c r s) = disk s"
  "locked (sendError c r s) = locked s"
  "spawned (sendError c r s) = spawned s"
  "signals (sendError c r s) = signals s"
  by (simp_all add: sendError_def split: option.splits)

lemma sendMessage_fields [simp]:
  "activeStreams (sendMessage c m s) = activeStreams s"
  "wsConnections (sendMessage c m s) = wsConnections s"
  "timers (sendMessage c m s) = timers s"
  "nextTimer (sendMessage c m s) = nextTimer s"
  "disk (sendMessage c m s) = disk s"
  "locked (sendMessage c m s) = locked s"
  "spawned (sendMessage c m s) = spawned s"
  "signals (sendMessage c m s) = signals s"
  by (simp_all add: sendMessage_def split: option.splits)

lemma sendError_open:
  "map_of (wsConnections s) c = Some ci \<Longrightarrow> readyState (ws ci) = OPEN \<Longrightarrow>
   wire (sendError c r s) = wire s @ [(socket (ws ci), Send (ErrorMessage r))]"
  by (simp add: sendError_def)

lemma sendMessage_open:
  "map_of (wsConnections s) c = Some ci \<Longrightarrow> readyState (ws ci) = OPEN \<Longrightarrow>
   wire (sendMessage c m s) = wire s @ [(socket (ws ci), Send m)]"
  by (simp add: sendMessage_def)

lemma cleanupStream_fields [simp]:
  "wsConnections (cleanupStream cfg i s) = wsConnections s"
  "wire (cleanupStream cfg i s) = wire s"
  "spawned (cleanupStream cfg i s) = spawned s"
  "signals (cleanupStream cfg i s) = signals s"
  "locked (cleanupStream cfg i s) = locked s"
  "nextTimer (cleanupStream cfg i s) = nextTimer s"
  "activeStreams (cleanupStream cfg i s) = AList.delete i (activeStreams s)"
  by (simp_all add: cleanupStream_def clearTimeout_def Let_def split: option.splits)

lemma mapGet_None_iff:
  "mapGet m key = None \<longleftrightarrow> (\<forall>k. key = JStr k \<longrightarrow> map_of m k = None)"
  by (cases key) (auto simp: mapGet_def split: option.splits)

lemma exampleServer_eq:
  "exampleServer =
    \<lparr>activeStreams =
       [(''s1'', \<lparr>command = Some ''s1'', connections = [''c1''],
                 rtspUrl = JStr ''rtsp://cam.local/live'', startTime = 200, timeoutId = None\<rparr>)],
     wsConnections =
       [(''c1'', \<lparr>ws = \<lparr>socket = 7, readyState = OPEN\<rparr>, connectTime = 100, lastPing = 200\<rparr>)],
     timers = [], nextTimer = 0,
     disk = [[''srv'', ''app'', ''public'', ''streams'', ''s1.m3u8''],
             [''srv'', ''app'', ''public'', ''streams'', ''s1-0.ts''],
             [''srv'', ''app'', ''public'', ''streams'', ''s10.ts''],
             [''srv'', ''app'', ''user.config.json'']],
     locked = [], wire = [(7, Send (StreamStarted ''s1''))],
     spawned = [(''s1'', ''c1'')], signals = []\<rparr>"
  by code_simp

subsection \<open>Retrieval for an unknown session\<close>

text \<open>
  The two handlers, for a session id that is not a key of \<open>activeStreams\<close>: 404 "no such
  stream", and no call to the file system, whatever files are on the disk.
\<close>

lemma retrieval_unknown_session:
  "map_of (activeStreams s) streamId = None \<Longrightarrow>
     serveHLSPlaylist cfg streamId s = (Status404 NoSuchStream, []) \<and>
     serveHLSSegment cfg streamId segment s = (Status404 NoSuchStream, [])"
  by (simp add: serveHLSPlaylist_def serveHLSSegment_def)

text \<open>The same for every request that one of the two routes takes.\<close>

lemma routed_playlist_unknown_session:
  assumes "CHR ''/'' \<notin> set (stripTrailingSlash raw)"
    and "matchPlaylist (stripTrailingSlash raw) = Some p"
    and "decodeURIComponent cfg p = Some streamId"
    and "map_of (activeStreams s) streamId = None"
  shows "getStreams cfg raw s = (Status404 NoSuchStream, [])"
  using assms by (simp add: getStreams_def Let_def retrieval_unknown_session)

lemma routed_segment_unknown_session:
  assumes "CHR ''/'' \<notin> set (stripTrailingSlash raw)"
    and "matchPlaylist (stripTrailingSlash raw) = None"
    and "matchSegment (stripTrailingSlash raw) = Some (p, q)"
    and "decodeURIComponent cfg p = Some streamId"
    and "decodeURIComponent cfg q = Some segment"
    and "map_of (activeStreams s) streamId = None"
  shows "getStreams cfg raw s = (Status404 NoSuchStream, [])"
  using assms by (simp add: getStreams_def Let_def retrieval_unknown_session)

text \<open>A name without a hyphen that does not end in \<open>.m3u8\<close> is left to the static middleware.\<close>

lemma splitDash_no_hyphen: "CHR ''-'' \<notin> set r \<Longrightarrow> splitDash acc r = None"
  by (induction r arbitrary: acc) auto

lemma unrouted_name_is_static:
  assumes "CHR ''-'' \<notin> set (stripTrailingSlash raw)"
    and "matchPlaylist (stripTrailingSlash raw) = None"
  shows "getStreams cfg raw s = expressStatic cfg raw s"
  using assms by (simp add: getStreams_def Let_def matchSegment_def splitDash_no_hyphen)

text \<open>
  C4. The specification asks that every playlist or segment request for a session that is
  not in the registry is answered not-found without touching the file system, even when
  the files are still on the disk. The two handlers do it, and the routes are registered
  before the static middleware so that they are asked first; but the segments that ffmpeg
  writes are named by the stream id and a number (\<open>s10.ts\<close> for \<open>s1\<close>), which neither
  route takes, and the static middleware serves the storage directory without asking the
  registry. After the only viewer of \<open>s1\<close> has stopped it, the registry is empty and the
  segments are still on the disk: the requests for \<open>s1.m3u8\<close> and \<open>s1-0.ts\<close> are
  refused with no call to the file system, and the request for \<open>s10.ts\<close> is answered
  with the file.
\<close>

theorem stale_segment_served_by_static:
  "activeStreams (step exampleConfig exampleServer stopRequest) = [] \<and>
   disk (step exampleConfig exampleServer stopRequest) =
     [[''srv'', ''app'', ''public'', ''streams'', ''s1-0.ts''],
      [''srv'', ''app'', ''public'', ''streams'', ''s10.ts''],
      [''srv'', ''app'', ''user.config.json'']] \<and>
   getStreams exampleConfig ''s1.m3u8'' (step exampleConfig exampleServer stopRequest) =
     (Status404 NoSuchStream, []) \<and>
   getStreams exampleConfig ''s1-0.ts'' (step exampleConfig exampleServer stopRequest) =
     (Status404 NoSuchStream, []) \<and>
   getStreams exampleConfig ''s10.ts'' (step exampleConfig exampleServer stopRequest) =
     (StaticFile [''srv'', ''app'', ''public'', ''streams'', ''s10.ts''],
      [Stat [''srv'', ''app'', ''public'', ''streams'', ''s10.ts''],
       ReadFile [''srv'', ''app'', ''public'', ''streams'', ''s10.ts'']])"
  by code_simp

subsection \<open>Stopping an unknown stream\<close>

text \<open>
  C9. A stop request whose stream id is not a key of \<open>activeStreams\<close> does what
  \<open>sendError\<close> does with the reason "the stream does not exist" and nothing else:
  the registry with every viewer list, the connection table, the timers, the processes,
  the signals sent and the disk are as before, and the requester, when its connection is
  in the table with an open socket, is sent exactly that error.
\<close>

theorem stop_unknown_stream:
  "mapGet (activeStreams s) streamKey = None \<Longrightarrow>
     stopRtspStream cfg streamKey connectionId s = sendError connectionId StreamNotFound s \<and>
     activeStreams (stopRtspStream cfg streamKey connectionId s) = activeStreams s \<and>
     wsConnections (stopRtspStream cfg streamKey connectionId s) = wsConnections s \<and>
     timers (stopRtspStream cfg streamKey connectionId s) = timers s \<and>
     spawned (stopRtspStream cfg streamKey connectionId s) = spawned s \<and>
     signals (stopRtspStream cfg streamKey connectionId s) = signals s \<and>
     disk (stopRtspStream cfg streamKey connectionId s) = disk s \<and>
     (\<forall>clientInfo. map_of (wsConnections s) connectionId = Some clientInfo \<and>
          readyState (ws clientInfo) = OPEN \<longrightarrow>
        wire (stopRtspStream cfg streamKey connectionId s) =
          wire s @ [(socket (ws clientInfo), Send (ErrorMessage StreamNotFound))])"
  by (simp add: stopRtspStream_def sendError_open)

text \<open>The viewer \<open>c1\<close>, whose socket 7 is open, asks to stop \<open>s2\<close>, which is not live.\<close>

theorem stop_unknown_stream_witness:
  "mapGet (activeStreams exampleServer) (JStr ''s2'') = None \<and>
   map_of (wsConnections exampleServer) ''c1'' =
     Some \<lparr>ws = \<lparr>socket = 7, readyState = OPEN\<rparr>, connectTime = 100, lastPing = 200\<rparr> \<and>
   stopRtspStream exampleConfig (JStr ''s2'') ''c1'' exampleServer =
     exampleServer\<lparr>wire := [(7, Send (StreamStarted ''s1'')), (7, Send (ErrorMessage StreamNotFound))]\<rparr>"
proof -
  have h: "mapGet (activeStreams exampleServer) (JStr ''s2'') = None"
    by (simp add: exampleServer_eq mapGet_def)
  have c: "map_of (wsConnections exampleServer) ''c1'' =
     Some \<lparr>ws = \<lparr>socket = 7, readyState = OPEN\<rparr>, connectTime = 100, lastPing = 200\<rparr>"
    by (simp add: exampleServer_eq)
  have e: "sendError ''c1'' StreamNotFound exampleServer =
     exampleServer\<lparr>wire := [(7, Send (StreamStarted ''s1'')), (7, Send (ErrorMessage StreamNotFound))]\<rparr>"
    by (simp add: exampleServer_eq sendError_def)
  show ?thesis
    using h c e stop_unknown_stream [OF h, of exampleConfig "''c1''"] by simp
qed

subsection \<open>A start request with an invalid address\<close>

text \<open>The reason that each failed check gives, in the order of the checks.\<close>

lemma validateRtspUrl_reasons:
  "validateRtspUrl p JNotString = Invalid UrlEmpty"
  "validateRtspUrl p (JStr []) = Invalid UrlEmpty"
  "raw \<noteq> [] \<Longrightarrow> \<not> startsWith (trim raw) ''rtsp://'' \<Longrightarrow> validateRtspUrl p (JStr raw) = Invalid NotRtspPrefix"
  "raw \<noteq> [] \<Longrightarrow> startsWith (trim raw) ''rtsp://'' \<Longrightarrow> length (trim raw) > 2048 \<Longrightarrow>
     validateRtspUrl p (JStr raw) = Invalid UrlTooLong"
  "raw \<noteq> [] \<Longrightarrow> startsWith (trim raw) ''rtsp://'' \<Longrightarrow> length (trim raw) \<le> 2048 \<Longrightarrow>
     list_ex (\<lambda>pattern. pattern (trim raw)) dangerousPatterns \<Longrightarrow>
     validateRtspUrl p (JStr raw) = Invalid IllegalCharacters"
  "raw \<noteq> [] \<Longrightarrow> startsWith (trim raw) ''rtsp://'' \<Longrightarrow> length (trim raw) \<le> 2048 \<Longrightarrow>
     \<not> list_ex (\<lambda>pattern. pattern (trim raw)) dangerousPatterns \<Longrightarrow>
     p (trim raw) = Some u \<Longrightarrow> protocol u \<in> set [''rtsp:'', ''rtsps:''] \<Longrightarrow> hostname u = [] \<Longrightarrow>
     validateRtspUrl p (JStr raw) = Invalid MissingHostname"
  "raw \<noteq> [] \<Longrightarrow> startsWith (trim raw) ''rtsp://'' \<Longrightarrow> length (trim raw) \<le> 2048 \<Longrightarrow>
     \<not> list_ex (\<lambda>pattern. pattern (trim raw)) dangerousPatterns \<Longrightarrow>
     p (trim raw) = Some u \<Longrightarrow> protocol u \<notin> set [''rtsp:'', ''rtsps:''] \<Longrightarrow>
     validateRtspUrl p (JStr raw) = Invalid ProtocolNotSupported"
  "raw \<noteq> [] \<Longrightarrow> startsWith (trim raw) ''rtsp://'' \<Longrightarrow> length (trim raw) \<le> 2048 \<Longrightarrow>
     \<not> list_ex (\<lambda>pattern. pattern (trim raw)) dangerousPatterns \<Longrightarrow>
     p (trim raw) = None \<Longrightarrow>
     validateRtspUrl p (JStr raw) = Invalid InvalidUrlFormat"
  by (simp_all add: validateRtspUrl_def Let_def)

text \<open>
  C7. When the source address fails validation with reason \<open>e\<close>, startRtspStream does
  what \<open>sendError\<close> does with \<open>e\<close> and nothing else: no entry is added to the registry,
  no ffmpeg command is created, no signal is sent, and the requester, when its connection is
  in the table with an open socket, is sent exactly that error.
\<close>

theorem invalid_address_rejected:
  "validateRtspUrl (newURL cfg) url = Invalid e \<Longrightarrow>
     startRtspStream cfg streamId spawnOk now url connectionId s = sendError connectionId e s \<and>
     activeStreams (startRtspStream cfg streamId spawnOk now url connectionId s) = activeStreams s \<and>
     spawned (startRtspStream cfg streamId spawnOk now url connectionId s) = spawned s \<and>
     signals (startRtspStream cfg streamId spawnOk now url connectionId s) = signals s \<and>
     timers (startRtspStream cfg streamId spawnOk now url connectionId s) = timers s \<and>
     disk (startRtspStream cfg streamId spawnOk now url connectionId s) = disk s \<and>
     (\<forall>clientInfo. map_of (wsConnections s) connectionId = Some clientInfo \<and>
          readyState (ws clientInfo) = OPEN \<longrightarrow>
        wire (startRtspStream cfg streamId spawnOk now url connectionId s) =
          wire s @ [(socket (ws clientInfo), Send (ErrorMessage e))])"
  by (simp add: startRtspStream_def sendError_open)

text \<open>The scenario of the specification: the viewer \<open>c1\<close> asks for \<open>http://evil/x\<close>.\<close>

theorem invalid_address_rejected_witness:
  "validateRtspUrl (newURL exampleConfig) (JStr ''http://evil/x'') = Invalid NotRtspPrefix \<and>
   map_of (wsConnections exampleServer) ''c1'' =
     Some \<lparr>ws = \<lparr>socket = 7, readyState = OPEN\<rparr>, connectTime = 100, lastPing = 200\<rparr> \<and>
   startRtspStream exampleConfig ''s2'' True 300 (JStr ''http://evil/x'') ''c1'' exampleServer =
     exampleServer\<lparr>wire := [(7, Send (StreamStarted ''s1'')), (7, Send (ErrorMessage NotRtspPrefix))]\<rparr>"
proof -
  have h: "validateRtspUrl (newURL exampleConfig) (JStr ''http://evil/x'') = Invalid NotRtspPrefix"
    by code_simp
  have c: "map_of (wsConnections exampleServer) ''c1'' =
     Some \<lparr>ws = \<lparr>socket = 7, readyState = OPEN\<rparr>, connectTime = 100, lastPing = 200\<rparr>"
    by (simp add: exampleServer_eq)
  have e: "sendError ''c1'' NotRtspPrefix exampleServer =
     exampleServer\<lparr>wire := [(7, Send (StreamStarted ''s1'')), (7, Send (ErrorMessage NotRtspPrefix))]\<rparr>"
    by (simp add: exampleServer_eq sendError_def)
  show ?thesis
    using h c e invalid_address_rejected [OF h, of "''s2''" True 300 "''c1''" exampleServer] by simp
qed

subsection \<open>The connection ceiling\<close>

lemma length_update_le: "length (AList.update k v al) \<le> Suc (length al)"
  by (induction al) auto

lemma length_update_known: "map_of al k = Some w \<Longrightarrow> length (AList.update k v al) = length al"
  by (induction al) (auto split: if_splits)

lemma startRtspStream_wsConnections [simp]:
  "wsConnections (startRtspStream cfg i ok now url c s) = wsConnections s"
  by (simp add: startRtspStream_def Let_def split: validation.splits)

lemma stopRtspStream_wsConnections [simp]:
  "wsConnections (stopRtspStream cfg k c s) = wsConnections s"
  by (simp add: stopRtspStream_def Let_def kill_def setTimeout_def split: option.splits prod.splits)

lemma stopIfViewer_wsConnections [simp]:
  "wsConnections (stopIfViewer cfg c k s) = wsConnections s"
  by (simp add: stopIfViewer_def split: option.splits)

lemma stopStreamsOf_wsConnections [simp]:
  "wsConnections (stopStreamsOf cfg c ks s) = wsConnections s"
  by (induction ks arbitrary: s) simp_all

lemma visitConnection_length:
  "length (wsConnections (visitConnection cfg now k s)) \<le> length (wsConnections s)"
  by (simp add: visitConnection_def length_delete_le split: option.splits)

lemma sweepConnections_length:
  "length (wsConnections (sweepConnections cfg now ks s)) \<le> length (wsConnections s)"
proof (induction ks arbitrary: s)
  case Nil
  show ?case by simp
next
  case (Cons k ks)
  have "length (wsConnections (sweepConnections cfg now ks (visitConnection cfg now k s)))
          \<le> length (wsConnections (visitConnection cfg now k s))"
    by (rule Cons.IH)
  also have "\<dots> \<le> length (wsConnections s)"
    by (rule visitConnection_length)
  finally show ?case by simp
qed

lemma onMessage_length:
  "length (wsConnections (onMessage cfg i ok now c m s)) = length (wsConnections s)"
  by (cases m)
     (auto simp: onMessage_def handleWebSocketMessage_def Let_def length_update_known
           split: option.splits)

lemma onConnection_bound:
  assumes "length (wsConnections s) \<le> maxConnections cfg"
  shows "length (wsConnections (onConnection cfg sock c now s)) \<le> maxConnections cfg"
proof (cases "length (wsConnections s) \<ge> maxConnections cfg")
  case True
  then show ?thesis using assms by (simp add: onConnection_def)
next
  case False
  then have "Suc (length (wsConnections s)) \<le> maxConnections cfg" by simp
  with length_update_le [of c "\<lparr>ws = \<lparr>socket = sock, readyState = OPEN\<rparr>, connectTime = now, lastPing = now\<rparr>" "wsConnections s"]
  have "length (AList.update c \<lparr>ws = \<lparr>socket = sock, readyState = OPEN\<rparr>, connectTime = now, lastPing = now\<rparr> (wsConnections s))
          \<le> maxConnections cfg"
    by (rule le_trans)
  with False show ?thesis by (simp add: onConnection_def)
qed

lemma timerFires_wsConnections [simp]:
  "wsConnections (timerFires cfg t s) = wsConnections s"
  by (simp add: timerFires_def forcedKill_def clearTimeout_def kill_def split: option.splits)

lemma step_bound:
  assumes "length (wsConnections s) \<le> maxConnections cfg"
  shows "length (wsConnections (step cfg s e)) \<le> maxConnections cfg"
proof (cases e)
  case (Connection sock c now)
  then show ?thesis using assms by (simp add: onConnection_bound)
next
  case (Message c m i ok now)
  then show ?thesis using assms by (simp add: onMessage_length)
next
  case (SocketClose c)
  then show ?thesis
    using assms length_delete_le [of c "wsConnections s"]
    by (simp add: handleWebSocketClose_def Let_def)
next
  case (SocketError c)
  then show ?thesis
    using assms length_delete_le [of c "wsConnections s"] by (simp add: onSocketError_def)
next
  case (SocketState c r)
  then show ?thesis
    using assms by (auto simp: setReadyState_def length_update_known split: option.splits)
next
  case (Heartbeat now)
  then show ?thesis
    using assms sweepConnections_length [of cfg now "map fst (wsConnections s)" s]
    by (simp add: checkConnections_def)
next
  case (TimerFires t)
  then show ?thesis using assms by simp
next
  case (FfmpegStart i c)
  then show ?thesis using assms by (simp add: onFfmpegStart_def)
next
  case (FfmpegError i c err)
  then show ?thesis using assms by (simp add: onFfmpegError_def)
next
  case (FfmpegEnd i c)
  then show ?thesis using assms by (simp add: onFfmpegEnd_def)
next
  case (DiskChange f l)
  then show ?thesis using assms by simp
qed

lemma visitConnection_distinct:
  "distinct (map fst (wsConnections s)) \<Longrightarrow>
   distinct (map fst (wsConnections (visitConnection cfg now k s)))"
  by (simp add: visitConnection_def distinct_delete split: option.splits)

lemma sweepConnections_distinct:
  "distinct (map fst (wsConnections s)) \<Longrightarrow>
   distinct (map fst (wsConnections (sweepConnections cfg now ks s)))"
  by (induction ks arbitrary: s) (simp_all add: visitConnection_distinct)

lemma onMessage_keys:
  "map fst (wsConnections (onMessage cfg i ok now c m s)) = map fst (wsConnections s)"
  by (cases m)
     (auto simp: onMessage_def handleWebSocketMessage_def Let_def update_keys map_of_eq_None_iff
           dest: map_of_SomeD split: option.splits)

lemma step_distinct:
  assumes "distinct (map fst (wsConnections s))"
  shows "distinct (map fst (wsConnections (step cfg s e)))"
proof (cases e)
  case (Connection sock c now)
  then show ?thesis using assms by (simp add: onConnection_def distinct_update)
next
  case (Message c m i ok now)
  then show ?thesis using assms by (simp add: onMessage_keys)
next
  case (SocketClose c)
  then show ?thesis using assms by (simp add: handleWebSocketClose_def Let_def distinct_delete)
next
  case (SocketError c)
  then show ?thesis using assms by (simp add: onSocketError_def distinct_delete)
next
  case (SocketState c r)
  then show ?thesis using assms
    by (simp add: setReadyState_def distinct_update split: option.splits)
next
  case (Heartbeat now)
  then show ?thesis using assms by (simp add: checkConnections_def sweepConnections_distinct)
next
  case (TimerFires t)
  then show ?thesis using assms by simp
next
  case (FfmpegStart i c)
  then show ?thesis using assms by (simp add: onFfmpegStart_def)
next
  case (FfmpegError i c err)
  then show ?thesis using assms by (simp add: onFfmpegError_def)
next
  case (FfmpegEnd i c)
  then show ?thesis using assms by (simp add: onFfmpegEnd_def)
next
  case (DiskChange f l)
  then show ?thesis using assms by simp
qed

lemma run_snoc: "run cfg (events @ [e]) = step cfg (run cfg events) e"
  by (simp add: run_def)

lemma run_bound: "length (wsConnections (run cfg events)) \<le> maxConnections cfg"
proof (induction events rule: rev_induct)
  case Nil
  show ?case by (simp add: run_def initial_def)
next
  case (snoc e events)
  then show ?case by (simp add: run_snoc step_bound)
qed

text \<open>The keys of the connection table are distinct: its length is \<open>Map.size\<close>.\<close>

lemma run_distinct: "distinct (map fst (wsConnections (run cfg events)))"
proof (induction events rule: rev_induct)
  case Nil
  show ?case by (simp add: run_def initial_def)
next
  case (snoc e events)
  then show ?case by (simp add: run_snoc step_distinct)
qed

text \<open>
  C8. In every state that the event loop reaches from the empty server, the connection
  table holds at most \<open>maxConnections\<close> entries; and a connection that arrives while
  the table is at the ceiling is closed with status 1008 (policy violation): the socket is
  neither admitted nor kept anywhere, the state is otherwise unchanged.
\<close>

theorem connection_ceiling:
  "length (wsConnections (run cfg events)) \<le> maxConnections cfg \<and>
   (length (wsConnections (run cfg events)) = maxConnections cfg \<longrightarrow>
      step cfg (run cfg events) (Connection sock connectionId now) =
        (run cfg events)\<lparr>wire := wire (run cfg events) @ [(sock, Close 1008)]\<rparr>)"
  by (simp add: run_bound onConnection_def)

theorem connection_ceiling_witness:
  "length (wsConnections (run exampleConfig twoConnections)) = maxConnections exampleConfig \<and>
   wsConnections (step exampleConfig (run exampleConfig twoConnections) (Connection 9 ''c3'' 200)) =
     wsConnections (run exampleConfig twoConnections) \<and>
   wire (step exampleConfig (run exampleConfig twoConnections) (Connection 9 ''c3'' 200)) =
     [(9, Close 1008)]"
proof -
  have h: "length (wsConnections (run exampleConfig twoConnections)) = maxConnections exampleConfig"
    by code_simp
  have w: "wire (run exampleConfig twoConnections) = []"
    by code_simp
  show ?thesis
    using h w connection_ceiling [of exampleConfig twoConnections 9 "''c3''" 200] by simp
qed

subsection \<open>The path of a segment\<close>

lemma splitSlash_plain: "CHR ''/'' \<notin> set n \<Longrightarrow> splitSlash n = [n]"
  by (induction n) auto

lemma normalizeOnto_plain: "plainPath cs \<Longrightarrow> normalizeOnto acc cs = rev acc @ cs"
  by (induction cs arbitrary: acc) (auto simp: plainPath_def)

lemma segment_name_plain: "plainPath [streamId @ ''-'' @ segment]"
proof -
  have "CHR ''-'' \<in> set (streamId @ ''-'' @ segment)" by simp
  moreover have "CHR ''-'' \<notin> set []" "CHR ''-'' \<notin> set ''.''" "CHR ''-'' \<notin> set ''..''" by simp_all
  ultimately have "streamId @ ''-'' @ segment \<noteq> [] \<and> streamId @ ''-'' @ segment \<noteq> ''.''
      \<and> streamId @ ''-'' @ segment \<noteq> ''..''"
    by metis
  then show ?thesis by (simp add: plainPath_def)
qed

lemma pathJoin_plain:
  assumes "plainPath dir" "CHR ''/'' \<notin> set name" "plainPath [name]"
  shows "pathJoin dir name = dir @ [name]"
proof -
  have "plainPath (dir @ [name])" using assms by (simp add: plainPath_def)
  then have n: "normalizeOnto [] (dir @ splitSlash name) = dir @ [name]"
    using assms(2) by (simp add: splitSlash_plain normalizeOnto_plain)
  have "name \<noteq> [] \<Longrightarrow> last name \<noteq> CHR ''/''"
    using assms(2) last_in_set by metis
  then show ?thesis using n by (auto simp: pathJoin_def Let_def)
qed

text \<open>
  The claim C3 as the specification states it fails: serveHLSSegment joins the token to
  the directory as it comes. A token that climbs with \<open>..\<close> is normalised by
  \<open>path.join\<close>, and for a live session the file it names is sent, here the
  configuration file of the server, which is not in the storage directory.
\<close>

theorem segment_token_counterexample:
  "map_of (activeStreams exampleServer) ''s1'' \<noteq> None \<and>
   includes_str ''../../../../user.config.json'' ''..'' \<and>
   serveHLSSegment exampleConfig ''s1'' ''../../../../user.config.json'' exampleServer =
     (SendFile ''video/MP2T'' [''srv'', ''app'', ''user.config.json''],
      [ExistsSync [''srv'', ''app'', ''user.config.json''],
       ReadFile [''srv'', ''app'', ''user.config.json'']]) \<and>
   \<not> insideDirectory (streamsDirectory exampleConfig) [''srv'', ''app'', ''user.config.json'']"
  by code_simp

text \<open>
  C3, as amended. serveHLSSegment does not validate the segment token. When the storage
  directory is a normalised path and neither the session id nor the token contains the
  separator \<open>/\<close>, \<open>path.join\<close> appends \<open>streamId-token\<close> to the directory as
  one file name, and every file the handler sends is that file, in the storage directory.
\<close>

theorem segment_without_separator:
  assumes "plainPath (streamsDirectory cfg)"
    and "CHR ''/'' \<notin> set streamId" and "CHR ''/'' \<notin> set segment"
  shows "pathJoin (streamsDirectory cfg) (streamId @ ''-'' @ segment) =
           streamsDirectory cfg @ [streamId @ ''-'' @ segment] \<and>
         (\<forall>contentType p calls.
            serveHLSSegment cfg streamId segment s = (SendFile contentType p, calls) \<longrightarrow>
            p = streamsDirectory cfg @ [streamId @ ''-'' @ segment] \<and>
            insideDirectory (streamsDirectory cfg) p)"
proof -
  have j: "pathJoin (streamsDirectory cfg) (streamId @ ''-'' @ segment) =
           streamsDirectory cfg @ [streamId @ ''-'' @ segment]"
    using assms by (intro pathJoin_plain segment_name_plain) simp_all
  show ?thesis
    using j by (auto simp: serveHLSSegment_def Let_def insideDirectory_def split: option.splits if_splits)
qed

theorem segment_without_separator_witness:
  "plainPath (streamsDirectory exampleConfig) \<and> CHR ''/'' \<notin> set ''s1'' \<and> CHR ''/'' \<notin> set ''0.ts'' \<and>
   serveHLSSegment exampleConfig ''s1'' ''0.ts'' exampleServer =
     (SendFile ''video/MP2T'' [''srv'', ''app'', ''public'', ''streams'', ''s1-0.ts''],
      [ExistsSync [''srv'', ''app'', ''public'', ''streams'', ''s1-0.ts''],
       ReadFile [''srv'', ''app'', ''public'', ''streams'', ''s1-0.ts'']]) \<and>
   insideDirectory (streamsDirectory exampleConfig) [''srv'', ''app'', ''public'', ''streams'', ''s1-0.ts'']"
proof -
  have h1: "plainPath (streamsDirectory exampleConfig)" by code_simp
  have h2: "CHR ''/'' \<notin> set ''s1''" by simp
  have h3: "CHR ''/'' \<notin> set ''0.ts''" by simp
  have e: "serveHLSSegment exampleConfig ''s1'' ''0.ts'' exampleServer =
     (SendFile ''video/MP2T'' [''srv'', ''app'', ''public'', ''streams'', ''s1-0.ts''],
      [ExistsSync [''srv'', ''app'', ''public'', ''streams'', ''s1-0.ts''],
       ReadFile [''srv'', ''app'', ''public'', ''streams'', ''s1-0.ts'']])"
    by code_simp
  from segment_without_separator [OF h1 h2 h3, of exampleServer] e
  have "insideDirectory (streamsDirectory exampleConfig) [''srv'', ''app'', ''public'', ''streams'', ''s1-0.ts'']"
    by blast
  with h1 h2 h3 e show ?thesis by blast
qed

subsection \<open>The started notification\<close>

text \<open>
  The claim C6 as the specification states it fails: the requester of a valid start
  request whose ffmpeg command cannot be created has been sent \<open>streamStarted\<close>, and
  then the error; no session is registered.
\<close>

theorem started_before_spawn_counterexample:
  "validateRtspUrl (newURL exampleConfig) (JStr ''rtsp://cam.local/live'') = Valid \<and>
   wire (run exampleConfig
      [Connection 7 ''c1'' 100,
       Message ''c1'' (StartStream (JStr ''rtsp://cam.local/live'')) ''s1'' False 200]) =
     [(7, Send (StreamStarted ''s1'')), (7, Send (ErrorMessage TranscodeStartFailed))] \<and>
   activeStreams (run exampleConfig
      [Connection 7 ''c1'' 100,
       Message ''c1'' (StartStream (JStr ''rtsp://cam.local/live'')) ''s1'' False 200]) = []"
  by code_simp

text \<open>
  C6, as amended. For a valid start request from a connection with an open socket,
  \<open>streamStarted\<close> is sent as soon as the address is validated, before the ffmpeg
  command is created. When the command is created, the session is registered with the
  requester as its only viewer; when creating it throws, no session is registered and no
  process exists, and the requester is sent the error after the notification. The start
  acknowledgment of the process sends nothing and changes nothing.
\<close>

theorem started_sent_on_acceptance:
  assumes "validateRtspUrl (newURL cfg) url = Valid"
    and "map_of (wsConnections s) connectionId = Some clientInfo"
    and "readyState (ws clientInfo) = OPEN"
  shows "wire (startRtspStream cfg streamId spawnOk now url connectionId s) =
           wire s @ [(socket (ws clientInfo), Send (StreamStarted streamId))] @
             (if spawnOk then [] else [(socket (ws clientInfo), Send (ErrorMessage TranscodeStartFailed))]) \<and>
         (spawnOk \<longrightarrow>
            map_of (activeStreams (startRtspStream cfg streamId spawnOk now url connectionId s)) streamId =
              Some \<lparr>command = Some streamId, connections = [connectionId], rtspUrl = url,
                    startTime = now, timeoutId = None\<rparr> \<and>
            spawned (startRtspStream cfg streamId spawnOk now url connectionId s) =
              spawned s @ [(streamId, connectionId)]) \<and>
         (\<not> spawnOk \<longrightarrow>
            activeStreams (startRtspStream cfg streamId spawnOk now url connectionId s) = activeStreams s \<and>
            spawned (startRtspStream cfg streamId spawnOk now url connectionId s) = spawned s) \<and>
         onFfmpegStart streamId connectionId
            (startRtspStream cfg streamId spawnOk now url connectionId s) =
           startRtspStream cfg streamId spawnOk now url connectionId s"
  using assms
  by (simp add: startRtspStream_def Let_def sendMessage_open sendError_open update_conv' onFfmpegStart_def)

text \<open>The viewer \<open>c1\<close> starts a second stream: once ffmpeg starts, once it does not.\<close>

theorem started_sent_on_acceptance_witness:
  "validateRtspUrl (newURL exampleConfig) (JStr ''rtsp://cam.local/live'') = Valid \<and>
   map_of (wsConnections exampleServer) ''c1'' =
     Some \<lparr>ws = \<lparr>socket = 7, readyState = OPEN\<rparr>, connectTime = 100, lastPing = 200\<rparr> \<and>
   wire (startRtspStream exampleConfig ''s2'' True 300 (JStr ''rtsp://cam.local/live'') ''c1'' exampleServer) =
     [(7, Send (StreamStarted ''s1'')), (7, Send (StreamStarted ''s2''))] \<and>
   map_of (activeStreams
       (startRtspStream exampleConfig ''s2'' True 300 (JStr ''rtsp://cam.local/live'') ''c1'' exampleServer)) ''s2'' =
     Some \<lparr>command = Some ''s2'', connections = [''c1''], rtspUrl = JStr ''rtsp://cam.local/live'',
           startTime = 300, timeoutId = None\<rparr> \<and>
   wire (startRtspStream exampleConfig ''s2'' False 300 (JStr ''rtsp://cam.local/live'') ''c1'' exampleServer) =
     [(7, Send (StreamStarted ''s1'')), (7, Send (StreamStarted ''s2'')),
      (7, Send (ErrorMessage TranscodeStartFailed))] \<and>
   activeStreams
       (startRtspStream exampleConfig ''s2'' False 300 (JStr ''rtsp://cam.local/live'') ''c1'' exampleServer) =
     activeStreams exampleServer"
proof -
  have h1: "validateRtspUrl (newURL exampleConfig) (JStr ''rtsp://cam.local/live'') = Valid"
    by code_simp
  have h2: "map_of (wsConnections exampleServer) ''c1'' =
     Some \<lparr>ws = \<lparr>socket = 7, readyState = OPEN\<rparr>, connectTime = 100, lastPing = 200\<rparr>"
    by (simp add: exampleServer_eq)
  have h3: "readyState (ws \<lparr>ws = \<lparr>socket = 7, readyState = OPEN\<rparr>, connectTime = 100, lastPing = 200\<rparr>) = OPEN"
    by simp
  have w: "wire exampleServer = [(7, Send (StreamStarted ''s1''))]"
    by (simp add: exampleServer_eq)
  show ?thesis
    using h1 h2 w started_sent_on_acceptance [OF h1 h2 h3, of "''s2''" True 300]
      started_sent_on_acceptance [OF h1 h2 h3, of "''s2''" False 300]
    by simp
qed

subsection \<open>The forced kill after the grace window\<close>

text \<open>
  stopRtspStream arms the timer and cleanupStream clears it before the handler returns.
\<close>

lemma cleanupStream_graceOnly: "graceOnly s \<Longrightarrow> graceOnly (cleanupStream cfg i s)"
  by (simp add: graceOnly_def cleanupStream_def clearTimeout_def Let_def split: option.splits)

lemma cleanupStream_armed:
  assumes "timers s = [(t, i)]" and "map_of (activeStreams s) i = Some info" and "timeoutId info = Some t"
  shows "timers (cleanupStream cfg i s) = []"
  using assms by (simp add: cleanupStream_def clearTimeout_def Let_def)

lemma stopRtspStream_graceOnly:
  assumes "graceOnly s"
  shows "graceOnly (stopRtspStream cfg k c s)"
proof (cases "mapGet (activeStreams s) k")
  case None
  then show ?thesis using assms by (simp add: stopRtspStream_def graceOnly_def)
next
  case (Some found)
  obtain i info0 where f: "found = (i, info0)" by (cases found)
  let ?info = "info0\<lparr>connections := filter (\<lambda>j. j \<noteq> c) (connections info0)\<rparr>"
  let ?s1 = "s\<lparr>activeStreams := AList.update i ?info (activeStreams s)\<rparr>"
  have g1: "graceOnly ?s1" using assms by (simp add: graceOnly_def)
  show ?thesis
  proof (cases "filter (\<lambda>j. j \<noteq> c) (connections info0) = []")
    case False
    then show ?thesis
      using Some f g1 by (simp add: stopRtspStream_def Let_def graceOnly_def)
  next
    case True
    show ?thesis
    proof (cases "command info0")
      case None
      then show ?thesis
        using Some f True cleanupStream_graceOnly [OF g1, of cfg i]
        by (simp add: stopRtspStream_def Let_def graceOnly_def)
    next
      case (Some cmd)
      let ?s2 = "(let (t, s') = setTimeout i (kill cmd SIGTERM ?s1)
            in s'\<lparr>activeStreams := AList.update i (?info\<lparr>timeoutId := Some t\<rparr>) (activeStreams s')\<rparr>)"
      have t2: "timers ?s2 = [(nextTimer s, i)]"
        using g1 by (simp add: setTimeout_def kill_def graceOnly_def)
      have a2: "map_of (activeStreams ?s2) i = Some (?info\<lparr>timeoutId := Some (nextTimer s)\<rparr>)"
        by (simp add: setTimeout_def kill_def update_conv')
      have sg2: "list_all (\<lambda>x. snd x = SIGTERM) (signals ?s2)"
        using g1 by (simp add: setTimeout_def kill_def graceOnly_def)
      have "timers (cleanupStream cfg i ?s2) = []"
        using t2 a2 by (rule cleanupStream_armed) simp
      then have "graceOnly (cleanupStream cfg i ?s2)"
        using sg2 by (simp add: graceOnly_def)
      then show ?thesis
        using \<open>mapGet (activeStreams s) k = Some found\<close> f True Some
        by (simp add: stopRtspStream_def Let_def graceOnly_def)
    qed
  qed
qed

lemma stopStreamsOf_graceOnly: "graceOnly s \<Longrightarrow> graceOnly (stopStreamsOf cfg c ks s)"
  by (induction ks arbitrary: s)
     (simp_all add: stopIfViewer_def stopRtspStream_graceOnly split: option.splits)

lemma sweepConnections_graceOnly: "graceOnly s \<Longrightarrow> graceOnly (sweepConnections cfg now ks s)"
  by (induction ks arbitrary: s)
     (simp_all add: visitConnection_def graceOnly_def split: option.splits)

lemma startRtspStream_graceOnly: "graceOnly s \<Longrightarrow> graceOnly (startRtspStream cfg i ok now u c s)"
  by (simp add: startRtspStream_def graceOnly_def Let_def split: validation.splits)

lemma onMessage_graceOnly: "graceOnly s \<Longrightarrow> graceOnly (onMessage cfg i ok now c m s)"
proof (cases m)
  case (StartStream u)
  assume "graceOnly s"
  then have "graceOnly (case map_of (wsConnections s) c of None \<Rightarrow> s
      | Some clientInfo \<Rightarrow> s\<lparr>wsConnections := AList.update c (clientInfo\<lparr>lastPing := now\<rparr>) (wsConnections s)\<rparr>)"
    by (simp add: graceOnly_def split: option.splits)
  then show ?thesis
    using StartStream by (simp add: onMessage_def handleWebSocketMessage_def Let_def startRtspStream_graceOnly)
next
  case (StopStream k)
  assume "graceOnly s"
  then have "graceOnly (case map_of (wsConnections s) c of None \<Rightarrow> s
      | Some clientInfo \<Rightarrow> s\<lparr>wsConnections := AList.update c (clientInfo\<lparr>lastPing := now\<rparr>) (wsConnections s)\<rparr>)"
    by (simp add: graceOnly_def split: option.splits)
  then show ?thesis
    using StopStream by (simp add: onMessage_def handleWebSocketMessage_def Let_def stopRtspStream_graceOnly)
qed (simp_all add: onMessage_def handleWebSocketMessage_def Let_def graceOnly_def split: option.splits)

lemma step_graceOnly:
  assumes "graceOnly s"
  shows "graceOnly (step cfg s e)"
proof (cases e)
  case (Connection sock c now)
  then show ?thesis using assms by (simp add: onConnection_def graceOnly_def)
next
  case (Message c m i ok now)
  then show ?thesis using assms by (simp add: onMessage_graceOnly)
next
  case (SocketClose c)
  have "graceOnly (s\<lparr>wsConnections := AList.delete c (wsConnections s)\<rparr>)"
    using assms by (simp add: graceOnly_def)
  then show ?thesis using SocketClose by (simp add: handleWebSocketClose_def Let_def stopStreamsOf_graceOnly)
next
  case (SocketError c)
  then show ?thesis using assms by (simp add: onSocketError_def graceOnly_def)
next
  case (SocketState c r)
  then show ?thesis using assms by (simp add: setReadyState_def graceOnly_def split: option.splits)
next
  case (Heartbeat now)
  then show ?thesis using assms by (simp add: checkConnections_def sweepConnections_graceOnly)
next
  case (TimerFires t)
  then show ?thesis using assms by (simp add: timerFires_def graceOnly_def)
next
  case (FfmpegStart i c)
  then show ?thesis using assms by (simp add: onFfmpegStart_def)
next
  case (FfmpegError i c err)
  have "graceOnly (sendError c (FfmpegFailure err) s)" using assms by (simp add: graceOnly_def)
  then show ?thesis using FfmpegError assms by (simp add: onFfmpegError_def cleanupStream_graceOnly)
next
  case (FfmpegEnd i c)
  have "graceOnly (sendMessage c (StreamEnded i) s)" using assms by (simp add: graceOnly_def)
  then show ?thesis using FfmpegEnd assms by (simp add: onFfmpegEnd_def cleanupStream_graceOnly)
next
  case (DiskChange f l)
  then show ?thesis using assms by (simp add: graceOnly_def)
qed

lemma run_graceOnly: "graceOnly (run cfg events)"
proof (induction events rule: rev_induct)
  case Nil
  show ?case by (simp add: run_def initial_def graceOnly_def)
next
  case (snoc e events)
  then show ?case by (simp add: run_snoc step_graceOnly)
qed

text \<open>
  In no run of the event loop is SIGKILL sent to any process: between two events no
  timer is ever pending, so the callback that would send it never runs.
\<close>

lemma no_forced_kill_in_any_run: "(cmd, SIGKILL) \<notin> set (signals (run cfg events))"
proof
  assume "(cmd, SIGKILL) \<in> set (signals (run cfg events))"
  moreover have "list_all (\<lambda>x. snd x = SIGTERM) (signals (run cfg events))"
    using run_graceOnly [of cfg events] by (simp add: graceOnly_def)
  ultimately show False by (auto simp: list_all_iff)
qed

text \<open>
  C1. The specification asks that a session whose last viewer has left and whose process
  does not confirm its exit within five seconds is sent SIGKILL. The code does not do it:
  stopRtspStream sends SIGTERM and arms the timer, and then calls cleanupStream at once,
  which clears that timer and removes the session. At the stop request of the only viewer
  of \<open>s1\<close>, the one signal sent is SIGTERM, no timer is pending afterwards, and the
  expiry of the timer that was armed sends nothing.
\<close>

theorem forced_kill_cancelled:
  "signals (step exampleConfig exampleServer stopRequest) = [(''s1'', SIGTERM)] \<and>
   wire (step exampleConfig exampleServer stopRequest) =
     [(7, Send (StreamStarted ''s1'')), (7, Send (StreamStopped ''s1''))] \<and>
   timers (step exampleConfig exampleServer stopRequest) = [] \<and>
   activeStreams (step exampleConfig exampleServer stopRequest) = [] \<and>
   signals (step exampleConfig (step exampleConfig exampleServer stopRequest) (TimerFires 0)) =
     [(''s1'', SIGTERM)]"
  by code_simp

subsection \<open>The files that cleanupStream removes\<close>

lemma unlinkFiles_keeps:
  assumes "p \<in> set files"
    and "\<And>f. startsWith f (i @ ''.'') \<Longrightarrow> pathJoin dir f \<noteq> p"
  shows "p \<in> set (unlinkFiles dir lck i names files)"
  using assms(1)
proof (induction names arbitrary: files)
  case Nil
  then show ?case by simp
next
  case (Cons f names)
  show ?case
  proof (cases "startsWith f (i @ ''.'')")
    case True
    then have "pathJoin dir f \<noteq> p" by (rule assms(2))
    then have "p \<in> set (removeAll (pathJoin dir f) files)" using Cons.prems by simp
    then show ?thesis using True Cons.IH Cons.prems by simp
  next
    case False
    then show ?thesis using Cons.IH Cons.prems by simp
  qed
qed

text \<open>
  cleanupStream removes no file other than those named by the stream id, a dot and a rest.
\<close>

lemma cleanupStream_keeps:
  assumes "p \<in> set (disk s)"
    and "\<And>f. startsWith f (i @ ''.'') \<Longrightarrow> pathJoin (streamsDirectory cfg) f \<noteq> p"
  shows "p \<in> set (disk (cleanupStream cfg i s))"
proof -
  have "disk (cleanupStream cfg i s) =
      unlinkFiles (streamsDirectory cfg) (locked s) i (readdirSync (streamsDirectory cfg) (disk s)) (disk s)"
    by (simp add: cleanupStream_def Let_def clearTimeout_def split: option.splits)
  then show ?thesis using assms unlinkFiles_keeps by simp
qed

text \<open>
  C2. The specification asks that the purge removes every file whose name starts with
  the session id. The code removes the files whose name starts with the session id and a
  dot: of the files of \<open>s1\<close>, the playlist \<open>s1.m3u8\<close> is removed, and the segment
  \<open>s1-0.ts\<close> (the name under which serveHLSSegment serves it) and \<open>s10.ts\<close> (the
  name ffmpeg gives by default) stay on the disk when the session is gone.
\<close>

theorem cleanup_leaves_segments:
  "disk exampleServer =
     [[''srv'', ''app'', ''public'', ''streams'', ''s1.m3u8''],
      [''srv'', ''app'', ''public'', ''streams'', ''s1-0.ts''],
      [''srv'', ''app'', ''public'', ''streams'', ''s10.ts''],
      [''srv'', ''app'', ''user.config.json'']] \<and>
   disk (cleanupStream exampleConfig ''s1'' exampleServer) =
     [[''srv'', ''app'', ''public'', ''streams'', ''s1-0.ts''],
      [''srv'', ''app'', ''public'', ''streams'', ''s10.ts''],
      [''srv'', ''app'', ''user.config.json'']] \<and>
   disk (step exampleConfig exampleServer stopRequest) =
     [[''srv'', ''app'', ''public'', ''streams'', ''s1-0.ts''],
      [''srv'', ''app'', ''public'', ''streams'', ''s10.ts''],
      [''srv'', ''app'', ''user.config.json'']] \<and>
   activeStreams (step exampleConfig exampleServer stopRequest) = []"
  by code_simp

subsection \<open>The viewer reference of a destroyed connection\<close>

text \<open>What stopRtspStream leaves in the registry for a stream that is live.\<close>

lemma stopRtspStream_activeStreams:
  assumes "map_of (activeStreams s) i = Some info0"
  shows "activeStreams (stopRtspStream cfg (JStr i) c s) =
    (if filter (\<lambda>j. j \<noteq> c) (connections info0) = [] then AList.delete i (activeStreams s)
     else AList.update i (info0\<lparr>connections := filter (\<lambda>j. j \<noteq> c) (connections info0)\<rparr>)
            (activeStreams s))"
  using assms
  by (simp add: stopRtspStream_def mapGet_def Let_def setTimeout_def kill_def delete_update_same
           split: option.splits)

lemma stopIfViewer_other:
  "k \<noteq> i \<Longrightarrow> map_of (activeStreams (stopIfViewer cfg c i s)) k = map_of (activeStreams s) k"
  by (simp add: stopIfViewer_def stopRtspStream_activeStreams delete_conv' update_conv'
           split: option.splits)

lemma stopIfViewer_detached:
  "map_of (activeStreams (stopIfViewer cfg c i s)) i = Some info \<Longrightarrow> c \<notin> set (connections info)"
  by (auto simp: stopIfViewer_def stopRtspStream_activeStreams delete_conv' update_conv'
           split: option.splits if_splits)

lemma stopIfViewer_keeps_detached:
  assumes "\<And>info. map_of (activeStreams s) k = Some info \<Longrightarrow> c \<notin> set (connections info)"
    and "map_of (activeStreams (stopIfViewer cfg c i s)) k = Some info"
  shows "c \<notin> set (connections info)"
proof (cases "k = i")
  case True
  then show ?thesis using assms(2) stopIfViewer_detached by simp
next
  case False
  then show ?thesis using assms by (simp add: stopIfViewer_other)
qed

lemma stopStreamsOf_keeps_detached:
  assumes "\<And>info. map_of (activeStreams s) k = Some info \<Longrightarrow> c \<notin> set (connections info)"
    and "map_of (activeStreams (stopStreamsOf cfg c ks s)) k = Some info"
  shows "c \<notin> set (connections info)"
  using assms
proof (induction ks arbitrary: s)
  case Nil
  then show ?case by simp
next
  case (Cons i ks)
  show ?case
  proof (rule Cons.IH [of "stopIfViewer cfg c i s"])
    fix info' assume "map_of (activeStreams (stopIfViewer cfg c i s)) k = Some info'"
    then show "c \<notin> set (connections info')"
      using Cons.prems(1) stopIfViewer_keeps_detached by blast
  next
    show "map_of (activeStreams (stopStreamsOf cfg c ks (stopIfViewer cfg c i s))) k = Some info"
      using Cons.prems(2) by simp
  qed
qed

lemma stopStreamsOf_other:
  "k \<notin> set ks \<Longrightarrow> map_of (activeStreams (stopStreamsOf cfg c ks s)) k = map_of (activeStreams s) k"
  by (induction ks arbitrary: s) (simp_all add: stopIfViewer_other)

lemma stopStreamsOf_detached:
  assumes "k \<in> set ks" and "map_of (activeStreams (stopStreamsOf cfg c ks s)) k = Some info"
  shows "c \<notin> set (connections info)"
  using assms
proof (induction ks arbitrary: s)
  case Nil
  then show ?case by simp
next
  case (Cons i ks)
  show ?case
  proof (cases "k = i")
    case True
    show ?thesis
    proof (rule stopStreamsOf_keeps_detached [of "stopIfViewer cfg c i s" k c cfg ks])
      fix info' assume "map_of (activeStreams (stopIfViewer cfg c i s)) k = Some info'"
      then show "c \<notin> set (connections info')" using True stopIfViewer_detached by simp
    next
      show "map_of (activeStreams (stopStreamsOf cfg c ks (stopIfViewer cfg c i s))) k = Some info"
        using Cons.prems(2) by simp
    qed
  next
    case False
    then have "k \<in> set ks" using Cons.prems(1) by simp
    then show ?thesis using Cons.IH [of "stopIfViewer cfg c i s"] Cons.prems(2) by simp
  qed
qed

text \<open>
  After the handler of \<open>close\<close>, the connection is in no viewer list and not in the table.
\<close>

lemma handleWebSocketClose_detaches:
  "map_of (wsConnections (handleWebSocketClose cfg c s)) c = None \<and>
   (\<forall>k info. map_of (activeStreams (handleWebSocketClose cfg c s)) k = Some info \<longrightarrow>
      c \<notin> set (connections info))"
proof (intro conjI allI impI)
  show "map_of (wsConnections (handleWebSocketClose cfg c s)) c = None"
    by (simp add: handleWebSocketClose_def Let_def delete_conv')
next
  fix k info
  let ?s1 = "s\<lparr>wsConnections := AList.delete c (wsConnections s)\<rparr>"
  assume a: "map_of (activeStreams (handleWebSocketClose cfg c s)) k = Some info"
  then have r: "map_of (activeStreams (stopStreamsOf cfg c (map fst (activeStreams s)) ?s1)) k = Some info"
    by (simp add: handleWebSocketClose_def Let_def)
  show "c \<notin> set (connections info)"
  proof (cases "k \<in> set (map fst (activeStreams s))")
    case True
    then show ?thesis using r stopStreamsOf_detached by blast
  next
    case False
    then have "map_of (activeStreams s) k = Some info"
      using r by (simp add: stopStreamsOf_other)
    then have "k \<in> set (map fst (activeStreams s))"
      by (metis map_of_SomeD fst_conv image_eqI set_map)
    with False show ?thesis by simp
  qed
qed

text \<open>
  C5. The specification asks that a destroyed connection is removed from the viewers of
  every session, whatever destroyed it. The handler of \<open>close\<close> does it
  (handleWebSocketClose stops the streams of the connection). The handler of \<open>error\<close>
  and the liveness sweep only delete the connection from the table: after either, the
  connection \<open>c1\<close> is gone and the session \<open>s1\<close> still lists it as its viewer.
\<close>

theorem viewer_reference_survives:
  "map_of (wsConnections (step exampleConfig exampleServer (SocketError ''c1''))) ''c1'' = None \<and>
   map (\<lambda>(streamId, info). (streamId, connections info))
       (activeStreams (step exampleConfig exampleServer (SocketError ''c1''))) = [(''s1'', [''c1''])] \<and>
   wire (step exampleConfig exampleServer (Heartbeat 60201)) =
     [(7, Send (StreamStarted ''s1'')), (7, Terminate)] \<and>
   map_of (wsConnections (step exampleConfig exampleServer (Heartbeat 60201))) ''c1'' = None \<and>
   map (\<lambda>(streamId, info). (streamId, connections info))
       (activeStreams (step exampleConfig exampleServer (Heartbeat 60201))) = [(''s1'', [''c1''])] \<and>
   activeStreams (step exampleConfig exampleServer (SocketClose ''c1'')) = []"
  by code_simp

subsection \<open>The liveness sweep and the activity timestamp\<close>

text \<open>
  A message that parses to a value other than \<open>null\<close> refreshes the timestamp of its
  connection, whatever its type.
\<close>

lemma parsed_message_refreshes:
  assumes "m \<noteq> Unparsable" and "m \<noteq> JsonNull"
    and "map_of (wsConnections s) c = Some clientInfo"
  shows "map_of (wsConnections (onMessage cfg i ok now c m s)) c = Some (clientInfo\<lparr>lastPing := now\<rparr>)"
  using assms
  by (cases m) (simp_all add: onMessage_def handleWebSocketMessage_def Let_def update_conv')

lemma visitConnection_other:
  "k \<noteq> c \<Longrightarrow> map_of (wsConnections (visitConnection cfg now c s)) k = map_of (wsConnections s) k"
  by (simp add: visitConnection_def delete_conv' split: option.splits)

lemma visitConnection_gone:
  "map_of (wsConnections s) k = None \<Longrightarrow> map_of (wsConnections (visitConnection cfg now c s)) k = None"
  by (simp add: visitConnection_def delete_conv' split: option.splits)

lemma visitConnection_wire: "\<exists>a. wire (visitConnection cfg now c s) = wire s @ a"
  by (simp add: visitConnection_def sendMessage_def split: option.splits)

lemma visitConnection_expired:
  assumes "map_of (wsConnections s) c = Some clientInfo" and "expired cfg now clientInfo"
  shows "map_of (wsConnections (visitConnection cfg now c s)) c = None"
    and "written s (visitConnection cfg now c s) = [(socket (ws clientInfo), Terminate)]"
  using assms by (simp_all add: visitConnection_def expired_def written_def delete_conv')

lemma visitConnection_alive:
  assumes "map_of (wsConnections s) c = Some clientInfo" and "\<not> expired cfg now clientInfo"
  shows "wsConnections (visitConnection cfg now c s) = wsConnections s"
    and "written s (visitConnection cfg now c s) =
           (if readyState (ws clientInfo) = OPEN then [(socket (ws clientInfo), Send Ping)] else [])"
  using assms by (simp_all add: visitConnection_def expired_def written_def sendMessage_def)

lemma sweepConnections_wire: "\<exists>a. wire (sweepConnections cfg now ks s) = wire s @ a"
proof (induction ks arbitrary: s)
  case Nil
  show ?case by simp
next
  case (Cons k ks)
  obtain a where a: "wire (visitConnection cfg now k s) = wire s @ a"
    using visitConnection_wire by blast
  obtain b where "wire (sweepConnections cfg now ks (visitConnection cfg now k s)) =
      wire (visitConnection cfg now k s) @ b"
    using Cons.IH by blast
  then show ?case using a by simp
qed

lemma written_sweep_Cons:
  "written s (sweepConnections cfg now (k # ks) s) =
     written s (visitConnection cfg now k s) @
     written (visitConnection cfg now k s) (sweepConnections cfg now ks (visitConnection cfg now k s))"
proof -
  obtain a where a: "wire (visitConnection cfg now k s) = wire s @ a"
    using visitConnection_wire by blast
  obtain b where b: "wire (sweepConnections cfg now ks (visitConnection cfg now k s)) =
      wire (visitConnection cfg now k s) @ b"
    using sweepConnections_wire by blast
  show ?thesis by (simp add: written_def a b)
qed

lemma sweepConnections_gone:
  "map_of (wsConnections s) k = None \<Longrightarrow> map_of (wsConnections (sweepConnections cfg now ks s)) k = None"
  by (induction ks arbitrary: s) (simp_all add: visitConnection_gone)

lemma sweepConnections_alive:
  assumes "map_of (wsConnections s) c = Some clientInfo" and "\<not> expired cfg now clientInfo"
  shows "map_of (wsConnections (sweepConnections cfg now ks s)) c = Some clientInfo"
  using assms(1)
proof (induction ks arbitrary: s)
  case Nil
  then show ?case by simp
next
  case (Cons k ks)
  have "map_of (wsConnections (visitConnection cfg now k s)) c = Some clientInfo"
  proof (cases "k = c")
    case True
    then show ?thesis using Cons.prems assms(2) visitConnection_alive(1) by simp
  next
    case False
    then show ?thesis using Cons.prems by (simp add: visitConnection_other)
  qed
  then show ?case using Cons.IH by simp
qed

lemma sweepConnections_expired:
  assumes "c \<in> set ks" and "map_of (wsConnections s) c = Some clientInfo"
    and "expired cfg now clientInfo"
  shows "map_of (wsConnections (sweepConnections cfg now ks s)) c = None \<and>
         (socket (ws clientInfo), Terminate) \<in> set (written s (sweepConnections cfg now ks s))"
  using assms(1,2)
proof (induction ks arbitrary: s)
  case Nil
  then show ?case by simp
next
  case (Cons k ks)
  show ?case
  proof (cases "k = c")
    case True
    have "map_of (wsConnections (visitConnection cfg now c s)) c = None"
      and "written s (visitConnection cfg now c s) = [(socket (ws clientInfo), Terminate)]"
      using Cons.prems(2) assms(3) by (rule visitConnection_expired)+
    then have "map_of (wsConnections (sweepConnections cfg now (k # ks) s)) c = None"
      and "(socket (ws clientInfo), Terminate) \<in> set (written s (sweepConnections cfg now (k # ks) s))"
      using True by (simp_all add: written_sweep_Cons sweepConnections_gone del: sweepConnections.simps)
        (simp add: sweepConnections_gone)
    then show ?thesis by simp
  next
    case False
    then have "c \<in> set ks" using Cons.prems(1) by simp
    moreover have "map_of (wsConnections (visitConnection cfg now k s)) c = Some clientInfo"
      using False Cons.prems(2) by (simp add: visitConnection_other)
    ultimately have "map_of (wsConnections (sweepConnections cfg now ks (visitConnection cfg now k s))) c = None"
      and "(socket (ws clientInfo), Terminate) \<in>
           set (written (visitConnection cfg now k s) (sweepConnections cfg now ks (visitConnection cfg now k s)))"
      using Cons.IH [of "visitConnection cfg now k s"] by simp_all
    then show ?thesis by (simp add: written_sweep_Cons del: sweepConnections.simps) simp
  qed
qed

lemma sweepConnections_probed:
  assumes "c \<in> set ks" and "map_of (wsConnections s) c = Some clientInfo"
    and "\<not> expired cfg now clientInfo" and "readyState (ws clientInfo) = OPEN"
  shows "(socket (ws clientInfo), Send Ping) \<in> set (written s (sweepConnections cfg now ks s))"
  using assms(1,2)
proof (induction ks arbitrary: s)
  case Nil
  then show ?case by simp
next
  case (Cons k ks)
  show ?case
  proof (cases "k = c")
    case True
    have "written s (visitConnection cfg now c s) =
           (if readyState (ws clientInfo) = OPEN then [(socket (ws clientInfo), Send Ping)] else [])"
      using Cons.prems(2) assms(3) by (rule visitConnection_alive(2))
    then show ?thesis using True assms(4) by (simp add: written_sweep_Cons del: sweepConnections.simps)
  next
    case False
    then have "c \<in> set ks" using Cons.prems(1) by simp
    moreover have "map_of (wsConnections (visitConnection cfg now k s)) c = Some clientInfo"
      using False Cons.prems(2) by (simp add: visitConnection_other)
    ultimately have "(socket (ws clientInfo), Send Ping) \<in>
           set (written (visitConnection cfg now k s) (sweepConnections cfg now ks (visitConnection cfg now k s)))"
      using Cons.IH [of "visitConnection cfg now k s"] by simp
    then show ?thesis by (simp add: written_sweep_Cons del: sweepConnections.simps)
  qed
qed

lemma key_listed: "map_of al k = Some v \<Longrightarrow> k \<in> set (map fst al)"
  by (metis map_of_SomeD fst_conv image_eqI set_map)

text \<open>
  The sweep: a connection whose last activity is more than twice the interval ago is
  terminated and removed from the table; any other stays, and is sent \<open>ping\<close> when its
  socket is open.
\<close>

lemma checkConnections_expired:
  assumes "map_of (wsConnections s) c = Some clientInfo"
    and "now - lastPing clientInfo > heartbeatInterval cfg * 2"
  shows "map_of (wsConnections (checkConnections cfg now s)) c = None \<and>
         (socket (ws clientInfo), Terminate) \<in> set (written s (checkConnections cfg now s))"
proof -
  have k: "c \<in> set (map fst (wsConnections s))" using assms(1) by (rule key_listed)
  have e: "expired cfg now clientInfo" using assms(2) by (simp add: expired_def)
  show ?thesis
    unfolding checkConnections_def using k assms(1) e by (rule sweepConnections_expired)
qed

lemma checkConnections_probed:
  assumes "map_of (wsConnections s) c = Some clientInfo"
    and "\<not> now - lastPing clientInfo > heartbeatInterval cfg * 2"
  shows "map_of (wsConnections (checkConnections cfg now s)) c = Some clientInfo \<and>
         (readyState (ws clientInfo) = OPEN \<longrightarrow>
            (socket (ws clientInfo), Send Ping) \<in> set (written s (checkConnections cfg now s)))"
proof -
  have k: "c \<in> set (map fst (wsConnections s))" using assms(1) by (rule key_listed)
  have e: "\<not> expired cfg now clientInfo" using assms(2) by (simp add: expired_def)
  have "map_of (wsConnections (checkConnections cfg now s)) c = Some clientInfo"
    unfolding checkConnections_def using assms(1) e by (rule sweepConnections_alive)
  moreover have "readyState (ws clientInfo) = OPEN \<Longrightarrow>
      (socket (ws clientInfo), Send Ping) \<in> set (written s (checkConnections cfg now s))"
    unfolding checkConnections_def using k assms(1) e by (rule sweepConnections_probed)
  ultimately show ?thesis by simp
qed

text \<open>
  C10. The specification asks that every inbound message refreshes the activity
  timestamp of its connection. In handleWebSocketMessage the refresh comes after
  \<open>JSON.parse\<close> and after the first reading of \<open>data.type\<close>: a message that is
  not JSON, and the message \<open>null\<close>, leave through the exception before the refresh.
  The connection \<open>c1\<close>, last seen at 200, that sends such a message at 50000 is
  terminated by the sweep at 60201; one that sends \<open>pong\<close> at 50000 is probed.
\<close>

theorem unparsable_message_no_refresh:
  "map (\<lambda>(connectionId, info). (connectionId, lastPing info)) (wsConnections exampleServer) =
     [(''c1'', 200)] \<and>
   map (\<lambda>(connectionId, info). (connectionId, lastPing info))
       (wsConnections (step exampleConfig exampleServer (Message ''c1'' Unparsable ''s2'' True 50000))) =
     [(''c1'', 200)] \<and>
   map (\<lambda>(connectionId, info). (connectionId, lastPing info))
       (wsConnections (step exampleConfig exampleServer (Message ''c1'' JsonNull ''s2'' True 50000))) =
     [(''c1'', 200)] \<and>
   map (\<lambda>(connectionId, info). (connectionId, lastPing info))
       (wsConnections (step exampleConfig exampleServer (Message ''c1'' Pong ''s2'' True 50000))) =
     [(''c1'', 50000)] \<and>
   wire (foldl (step exampleConfig) exampleServer
           [Message ''c1'' Unparsable ''s2'' True 50000, Heartbeat 60201]) =
     [(7, Send (StreamStarted ''s1'')), (7, Send (ErrorMessage MessageHandlingFailed)), (7, Terminate)] \<and>
   wire (foldl (step exampleConfig) exampleServer
           [Message ''c1'' Pong ''s2'' True 50000, Heartbeat 60201]) =
     [(7, Send (StreamStarted ''s1'')), (7, Send Ping)]"
  by code_simp

end
